theory Spec2Isabelle
  imports Complex_Main "HOL-Library.Word" "HOL-Library.Sublist"
begin

section \<open>Omni treadmill driver: signal processing, classification and injection\<close>

text \<open>
  The repository holds three host integrations of one engine: the SteamVR server driver
  (\<^verbatim>\<open>driver_treadmill.cpp\<close>), the OpenVR wrapper (\<^verbatim>\<open>TreadmillOpenVRWrapper\<close>) and the
  OpenXR layer (\<^verbatim>\<open>TreadmillOpenXRLayer\<close>). Each function below is the translation of
  one source function; where two integrations hold the same text (the wrapper and the
  layer share \<^verbatim>\<open>ApplyDeadzone\<close>, \<^verbatim>\<open>ApplySmoothing\<close>, \<^verbatim>\<open>MatchesPattern\<close> and
  \<^verbatim>\<open>OmniBridge::OnOmniData\<close> word for word) one definition stands for both.

  Numbers: \<^verbatim>\<open>float\<close> and \<^verbatim>\<open>double\<close> are read as \<^typ>\<open>real\<close>, so rounding is not
  part of these definitions and a literal such as \<^verbatim>\<open>0.05f\<close> is the rational it is
  written as. The two callbacks, whose smoothing depends on rounding, are given a second
  time with every operation rounded (the float reading, further down).
  A C \<^verbatim>\<open>int\<close> is an \<^typ>\<open>int\<close> (no arithmetic is done on the pad samples before they
  are converted to \<^verbatim>\<open>float\<close>), \<^verbatim>\<open>uint64_t\<close> is \<^typ>\<open>64 word\<close> and \<^verbatim>\<open>uint32_t\<close> is
  \<^typ>\<open>32 word\<close>. The record fields \<open>x\<close>, \<open>y\<close>, \<open>yaw\<close> occur in several structs and
  are written with the record's name in front.
\<close>

subsection \<open>Shared helpers (treadmill_input.cpp)\<close>

text \<open>\<^verbatim>\<open>std::clamp(v, lo, hi)\<close>: \<^verbatim>\<open>(v < lo) ? lo : (hi < v) ? hi : v\<close>.\<close>

definition clamp :: "real \<Rightarrow> real \<Rightarrow> real \<Rightarrow> real" where
  "clamp v lo hi = (if v < lo then lo else if hi < v then hi else v)"

definition ApplyDeadzone :: "real \<Rightarrow> real \<Rightarrow> real" where
  "ApplyDeadzone val deadzone =
     (if \<bar>val\<bar> < deadzone then 0
      else let sign = (if val > 0 then 1 else - 1)
           in sign * (\<bar>val\<bar> - deadzone) / (1 - deadzone))"

definition ApplySmoothing :: "real \<Rightarrow> real \<Rightarrow> real \<Rightarrow> real" where
  "ApplySmoothing current target factor = current + (target - current) * factor"


text \<open>
  \<^verbatim>\<open>::tolower\<close> in the C locale: the letters \<open>A\<close> to \<open>Z\<close> (codes 65 to 90) move to
  \<open>a\<close> to \<open>z\<close>, every other character is left as it is.
\<close>

definition tolower :: "char \<Rightarrow> char" where
  "tolower c =
     (let n = (of_char c :: nat) in if 65 \<le> n \<and> n \<le> 90 then char_of (n + 32) else c)"

text \<open>
  \<^verbatim>\<open>std::string::find\<close>: the first position at which the argument occurs, \<open>None\<close> for
  \<^verbatim>\<open>npos\<close>.
\<close>

fun str_find :: "string \<Rightarrow> string \<Rightarrow> nat option" where
  "str_find [] s = (if s = [] then Some 0 else None)"
| "str_find (c # cs) s =
     (if take (length s) (c # cs) = s then Some 0 else map_option Suc (str_find cs s))"

definition MatchesPattern :: "string \<Rightarrow> string \<Rightarrow> bool" where
  "MatchesPattern text pattern =
     (let lowerText = map tolower text;
          lowerPattern = map tolower pattern
      in if lowerPattern = [] then False
         else
           let startWild = (hd lowerPattern = CHR ''*'');
               endWild = (last lowerPattern = CHR ''*'');
               searchStr = lowerPattern;
               searchStr = (if startWild then drop 1 searchStr else searchStr);
               searchStr = (if endWild \<and> searchStr \<noteq> []
                            then take (length searchStr - 1) searchStr else searchStr)
           in if startWild \<and> endWild then str_find lowerText searchStr \<noteq> None
              else if startWild then
                length lowerText \<ge> length searchStr \<and>
                drop (length lowerText - length searchStr) lowerText = searchStr
              else if endWild then take (length searchStr) lowerText = searchStr
              else lowerText = searchStr)"

subsection \<open>State and configuration (treadmill_input.h)\<close>

record TreadmillState =
  x :: real
  y :: real
  yaw :: real
  active :: bool
  lastUpdateTime :: "64 word"
  updateCount :: "64 word"

text \<open>The member initialisers of \<^verbatim>\<open>struct TreadmillState\<close>.\<close>

definition g_treadmillState_init :: TreadmillState where
  "g_treadmillState_init =
     \<lparr>TreadmillState.x = 0, y = 0, yaw = 0, active = False, lastUpdateTime = 0,
      updateCount = 0\<rparr>"

datatype InputMode = Override | Additive | Smart

record Config =
  enabled :: bool
  comPort :: string
  baudRate :: int
  speedMultiplier :: real
  deadzone :: real
  smoothing :: real
  targetControllerIndex :: int
  inputMode :: InputMode
  actionPatterns :: "string list"
  debugLog :: bool

text \<open>The member initialisers of \<^verbatim>\<open>struct Config\<close> (the wrapper's).\<close>

definition Config_default :: Config where
  "Config_default =
     \<lparr>enabled = True, comPort = ''COM3'', baudRate = 115200, speedMultiplier = 3 / 2,
      deadzone = 1 / 10, smoothing = 3 / 10, targetControllerIndex = - 1,
      inputMode = Smart,
      actionPatterns = [''*move*'', ''*locomotion*'', ''*walk*'', ''*thumbstick*''],
      debugLog = True\<rparr>"

text \<open>
  The statics of \<^verbatim>\<open>class OmniBridge\<close>: the two handles (\<open>None\<close> is \<^verbatim>\<open>nullptr\<close>) and
  the connection flag.
\<close>

record OmniBridge =
  s_library :: "nat option"
  s_reader :: "nat option"
  s_connected :: bool

definition IsConnected :: "OmniBridge \<Rightarrow> bool" where
  "IsConnected b = s_connected b"

text \<open>
  \<^verbatim>\<open>OmniBridge::Shutdown\<close>. The calls into the reader library (disconnect, destroy,
  \<^verbatim>\<open>FreeLibrary\<close>) touch nothing of this program's state; what remains is the three
  stores.
\<close>

definition Shutdown :: "OmniBridge \<Rightarrow> OmniBridge" where
  "Shutdown b = b\<lparr>s_connected := False, s_reader := None, s_library := None\<rparr>"

subsection \<open>Ingest in the wrapper and the layer (OmniBridge::OnOmniData)\<close>

text \<open>
  The callback of the OpenVR wrapper and of the OpenXR layer. \<open>timestamp\<close> is the clock
  reading taken in the first statement; the locals \<^verbatim>\<open>x\<close> and \<^verbatim>\<open>y\<close> are \<open>px\<close> and
  \<open>py\<close> here. The trace line written on every hundredth sample changes no state and is
  left out.
\<close>

definition OmniBridge_OnOmniData ::
  "Config \<Rightarrow> 64 word \<Rightarrow> real \<Rightarrow> int \<Rightarrow> int \<Rightarrow> TreadmillState \<Rightarrow> TreadmillState" where
  "OmniBridge_OnOmniData cfg timestamp ringAngle gamePadX gamePadY st =
     (let px = (of_int gamePadX - 127) / 127;
          py = - (of_int gamePadY - 127) / 127;
          px = ApplyDeadzone px (deadzone cfg);
          py = ApplyDeadzone py (deadzone cfg);
          px = px * speedMultiplier cfg;
          py = py * speedMultiplier cfg;
          px = clamp px (- 1) 1;
          py = clamp py (- 1) 1;
          prevX = TreadmillState.x st;
          prevY = TreadmillState.y st;
          smoothedX = ApplySmoothing prevX px (smoothing cfg);
          smoothedY = ApplySmoothing prevY py (smoothing cfg)
      in st\<lparr>TreadmillState.x := smoothedX,
            TreadmillState.y := smoothedY,
            TreadmillState.yaw := ringAngle,
            lastUpdateTime := timestamp,
            updateCount := updateCount st + 1,
            active := True\<rparr>)"


subsection \<open>Classification of an action name (Wrapped_GetActionHandle, xrCreateAction)\<close>

text \<open>
  The loop over \<^verbatim>\<open>g_config.actionPatterns\<close> that sets the local \<^verbatim>\<open>isMovement\<close> and
  leaves at the first match.
\<close>

fun isMovement :: "string list \<Rightarrow> string \<Rightarrow> bool" where
  "isMovement [] name = False"
| "isMovement (pattern # rest) name =
     (if MatchesPattern name pattern then True else isMovement rest name)"

subsection \<open>OpenVR interception (openvr_wrapper.cpp)\<close>

record InputAnalogActionData =
  bActive :: bool
  activeOrigin :: "64 word"
  x :: real
  y :: real
  z :: real
  deltaX :: real
  deltaY :: real
  deltaZ :: real
  fUpdateTime :: real

text \<open>\<^verbatim>\<open>EVRInputError\<close> is kept as its number; \<^verbatim>\<open>VRInputError_None = 0\<close>.\<close>

definition VRInputError_None :: nat where
  "VRInputError_None = 0"

text \<open>
  \<^verbatim>\<open>Wrapped_GetAnalogActionData\<close>. \<open>result\<close> and \<open>pActionData\<close> are what the real
  function returned and left in the caller's buffer (\<open>None\<close> for a null pointer);
  \<open>g_isMovementAction\<close> is the map filled by \<^verbatim>\<open>Wrapped_GetActionHandle\<close>. The function
  returns \<open>result\<close> and the buffer. \<open>ulRestrictToDevice\<close> is passed to the real function
  and not looked at again.
\<close>

definition Wrapped_GetAnalogActionData ::
  "Config \<Rightarrow> OmniBridge \<Rightarrow> TreadmillState \<Rightarrow> (64 word \<rightharpoonup> bool) \<Rightarrow> 64 word \<Rightarrow> nat \<Rightarrow>
   InputAnalogActionData option \<Rightarrow> 64 word \<Rightarrow> nat \<times> InputAnalogActionData option" where
  "Wrapped_GetAnalogActionData cfg bridge tst g_isMovementAction action result pActionData
      ulRestrictToDevice =
     (case pActionData of
        None \<Rightarrow> (result, None)
      | Some d \<Rightarrow>
          if result = VRInputError_None then
            let isMov = (case g_isMovementAction action of None \<Rightarrow> False | Some b \<Rightarrow> b)
            in if isMov \<and> IsConnected bridge then
                 let treadmillX = TreadmillState.x tst;
                     treadmillY = TreadmillState.y tst;
                     treadmillActive = (\<bar>treadmillX\<bar> > 5 / 100 \<or> \<bar>treadmillY\<bar> > 5 / 100)
                 in (case inputMode cfg of
                       Override \<Rightarrow>
                         if treadmillActive then
                           (result, Some (d\<lparr>InputAnalogActionData.x := treadmillX,
                                           InputAnalogActionData.y := treadmillY,
                                           bActive := True\<rparr>))
                         else (result, Some d)
                     | Additive \<Rightarrow>
                         let d1 = d\<lparr>InputAnalogActionData.x :=
                                      clamp (InputAnalogActionData.x d + treadmillX) (- 1) 1\<rparr>;
                             d2 = d1\<lparr>InputAnalogActionData.y :=
                                      clamp (InputAnalogActionData.y d1 + treadmillY) (- 1) 1\<rparr>
                         in (result, Some (if treadmillActive then d2\<lparr>bActive := True\<rparr> else d2))
                     | Smart \<Rightarrow>
                         if treadmillActive then
                           (result, Some (d\<lparr>InputAnalogActionData.x := treadmillX,
                                           InputAnalogActionData.y := treadmillY,
                                           bActive := True\<rparr>))
                         else (result, Some d))
               else (result, Some d)
          else (result, Some d))"

text \<open>
  \<^verbatim>\<open>VRControllerState001_t\<close>: the axis array holds five pairs \<open>(x, y)\<close>;
  \<^verbatim>\<open>k_EControllerAxis_Joystick\<close> is index 0.
\<close>

record VRControllerState =
  unPacketNum :: "32 word"
  ulButtonPressed :: "64 word"
  ulButtonTouched :: "64 word"
  rAxis :: "(real \<times> real) list"

definition k_EControllerAxis_Joystick :: nat where
  "k_EControllerAxis_Joystick = 0"

text \<open>
  \<^verbatim>\<open>Wrapped_GetControllerState\<close>. \<open>result\<close> and \<open>pControllerState\<close> are what the real
  function returned and left in the caller's buffer. \<^verbatim>\<open>static_cast<int>\<close> of the
  \<^verbatim>\<open>uint32_t\<close> device index is the signed reading of the word.
\<close>

definition Wrapped_GetControllerState ::
  "Config \<Rightarrow> OmniBridge \<Rightarrow> TreadmillState \<Rightarrow> 32 word \<Rightarrow> bool \<Rightarrow> VRControllerState option \<Rightarrow>
   bool \<times> VRControllerState option" where
  "Wrapped_GetControllerState cfg bridge tst unControllerDeviceIndex result pControllerState =
     (case pControllerState of
        None \<Rightarrow> (result, None)
      | Some cs \<Rightarrow>
          if result \<and> IsConnected bridge then
            if targetControllerIndex cfg \<ge> 0 \<and>
               sint unControllerDeviceIndex \<noteq> targetControllerIndex cfg
            then (result, Some cs)
            else
              let treadmillX = TreadmillState.x tst;
                  treadmillY = TreadmillState.y tst;
                  treadmillActive = (\<bar>treadmillX\<bar> > 5 / 100 \<or> \<bar>treadmillY\<bar> > 5 / 100);
                  j = k_EControllerAxis_Joystick
              in if treadmillActive then
                   (case inputMode cfg of
                      Override \<Rightarrow>
                        (result, Some (cs\<lparr>rAxis := (rAxis cs)[j := (treadmillX, treadmillY)]\<rparr>))
                    | Additive \<Rightarrow>
                        (result, Some (cs\<lparr>rAxis := (rAxis cs)
                           [j := (clamp (fst (rAxis cs ! j) + treadmillX) (- 1) 1,
                                  clamp (snd (rAxis cs ! j) + treadmillY) (- 1) 1)]\<rparr>))
                    | Smart \<Rightarrow>
                        (result, Some (cs\<lparr>rAxis := (rAxis cs)[j := (treadmillX, treadmillY)]\<rparr>)))
                 else (result, Some cs)
          else (result, Some cs))"

text \<open>
  \<^verbatim>\<open>Wrapped_GetControllerStateWithPose\<close>: the same body after the call of the real
  function (the pose buffer is filled by the real function and not touched here).
\<close>

definition Wrapped_GetControllerStateWithPose ::
  "Config \<Rightarrow> OmniBridge \<Rightarrow> TreadmillState \<Rightarrow> 32 word \<Rightarrow> bool \<Rightarrow> VRControllerState option \<Rightarrow>
   bool \<times> VRControllerState option" where
  "Wrapped_GetControllerStateWithPose cfg bridge tst unControllerDeviceIndex result
      pControllerState =
     (case pControllerState of
        None \<Rightarrow> (result, None)
      | Some cs \<Rightarrow>
          if result \<and> IsConnected bridge then
            if targetControllerIndex cfg \<ge> 0 \<and>
               sint unControllerDeviceIndex \<noteq> targetControllerIndex cfg
            then (result, Some cs)
            else
              let treadmillX = TreadmillState.x tst;
                  treadmillY = TreadmillState.y tst;
                  treadmillActive = (\<bar>treadmillX\<bar> > 5 / 100 \<or> \<bar>treadmillY\<bar> > 5 / 100);
                  j = k_EControllerAxis_Joystick
              in if treadmillActive then
                   (case inputMode cfg of
                      Override \<Rightarrow>
                        (result, Some (cs\<lparr>rAxis := (rAxis cs)[j := (treadmillX, treadmillY)]\<rparr>))
                    | Additive \<Rightarrow>
                        (result, Some (cs\<lparr>rAxis := (rAxis cs)
                           [j := (clamp (fst (rAxis cs ! j) + treadmillX) (- 1) 1,
                                  clamp (snd (rAxis cs ! j) + treadmillY) (- 1) 1)]\<rparr>))
                    | Smart \<Rightarrow>
                        (result, Some (cs\<lparr>rAxis := (rAxis cs)[j := (treadmillX, treadmillY)]\<rparr>)))
                 else (result, Some cs)
          else (result, Some cs))"


subsection \<open>OpenXR interception (openxr_interceptor.cpp)\<close>

text \<open>
  \<^verbatim>\<open>XrResult\<close> is an \<^verbatim>\<open>int32_t\<close>; \<^verbatim>\<open>XR_SUCCEEDED(result)\<close> is \<^verbatim>\<open>result >= 0\<close>.
  \<^verbatim>\<open>XrBool32\<close> is a \<^verbatim>\<open>uint32_t\<close>, and storing \<^verbatim>\<open>true\<close> stores 1. An \<^verbatim>\<open>XrAction\<close>
  handle is kept as a number. The \<^verbatim>\<open>type\<close> and \<^verbatim>\<open>next\<close> header fields of the state
  structs are never written by the layer and are left out.
\<close>

definition XR_SUCCEEDED :: "int \<Rightarrow> bool" where
  "XR_SUCCEEDED result = (result \<ge> 0)"

definition XR_ERROR_VALIDATION_FAILURE :: int where
  "XR_ERROR_VALIDATION_FAILURE = - 1"

record XrActionStateFloat =
  currentState :: real
  changedSinceLastSync :: "32 word"
  lastChangeTime :: int
  isActive :: "32 word"

record XrActionStateVector2f =
  x :: real
  y :: real
  changedSinceLastSync :: "32 word"
  lastChangeTime :: int
  isActive :: "32 word"

text \<open>
  \<^verbatim>\<open>TreadmillLayer_xrGetActionStateVector2f\<close>. \<open>Real_present\<close> says that the pointer to
  the next layer's function is set, \<open>getInfo\<close> is the action of the request (\<open>None\<close> for
  a null pointer), \<open>state\<close> the caller's buffer, and \<open>real_call\<close> what the next layer's
  function returns and writes into the buffer when it is called.
\<close>

definition TreadmillLayer_xrGetActionStateVector2f ::
  "Config \<Rightarrow> OmniBridge \<Rightarrow> TreadmillState \<Rightarrow> (nat \<rightharpoonup> bool) \<Rightarrow> bool \<Rightarrow> nat option \<Rightarrow>
   XrActionStateVector2f option \<Rightarrow> int \<times> XrActionStateVector2f \<Rightarrow>
   int \<times> XrActionStateVector2f option" where
  "TreadmillLayer_xrGetActionStateVector2f cfg bridge tst g_isMovementAction Real_present
      getInfo state real_call =
     (case (Real_present, getInfo, state) of
        (True, Some action, Some _) \<Rightarrow>
          let result = fst real_call; st = snd real_call
          in if XR_SUCCEEDED result \<and> IsConnected bridge then
               let isMov = (case g_isMovementAction action of None \<Rightarrow> False | Some b \<Rightarrow> b)
               in if isMov then
                    let treadmillX = TreadmillState.x tst;
                        treadmillY = TreadmillState.y tst;
                        treadmillActive = (\<bar>treadmillX\<bar> > 5 / 100 \<or> \<bar>treadmillY\<bar> > 5 / 100)
                    in if treadmillActive \<or> inputMode cfg = Additive then
                         (case inputMode cfg of
                            Override \<Rightarrow>
                              (result, Some (st\<lparr>XrActionStateVector2f.x := treadmillX,
                                               XrActionStateVector2f.y := treadmillY,
                                               XrActionStateVector2f.isActive := 1\<rparr>))
                          | Additive \<Rightarrow>
                              let s1 = st\<lparr>XrActionStateVector2f.x :=
                                clamp (XrActionStateVector2f.x st + treadmillX) (- 1) 1\<rparr>;
                                  s2 = s1\<lparr>XrActionStateVector2f.y :=
                                clamp (XrActionStateVector2f.y s1 + treadmillY) (- 1) 1\<rparr>
                              in (result, Some (if treadmillActive
                                                then s2\<lparr>XrActionStateVector2f.isActive := 1\<rparr>
                                                else s2))
                          | Smart \<Rightarrow>
                              if treadmillActive then
                                (result, Some (st\<lparr>XrActionStateVector2f.x := treadmillX,
                                                 XrActionStateVector2f.y := treadmillY,
                                                 XrActionStateVector2f.isActive := 1\<rparr>))
                              else (result, Some st))
                       else (result, Some st)
                  else (result, Some st)
             else (result, Some st)
      | _ \<Rightarrow> (XR_ERROR_VALIDATION_FAILURE, state))"

text \<open>
  \<^verbatim>\<open>TreadmillLayer_xrGetActionStateFloat\<close>: the scalar read. The axis is chosen from the
  action's stored name (\<open>g_actionNames\<close>); with no stored name the treadmill value stays 0.
\<close>

definition TreadmillLayer_xrGetActionStateFloat ::
  "Config \<Rightarrow> OmniBridge \<Rightarrow> TreadmillState \<Rightarrow> (nat \<rightharpoonup> bool) \<Rightarrow> (nat \<rightharpoonup> string) \<Rightarrow> bool \<Rightarrow>
   nat option \<Rightarrow> XrActionStateFloat option \<Rightarrow> int \<times> XrActionStateFloat \<Rightarrow>
   int \<times> XrActionStateFloat option" where
  "TreadmillLayer_xrGetActionStateFloat cfg bridge tst g_isMovementAction g_actionNames
      Real_present getInfo state real_call =
     (case (Real_present, getInfo, state) of
        (True, Some action, Some _) \<Rightarrow>
          let result = fst real_call; st = snd real_call
          in if XR_SUCCEEDED result \<and> IsConnected bridge then
               let isMov = (case g_isMovementAction action of None \<Rightarrow> False | Some b \<Rightarrow> b)
               in if isMov then
                    let treadmillValue =
                          (case g_actionNames action of
                             None \<Rightarrow> 0
                           | Some name \<Rightarrow>
                               if str_find name ''forward'' \<noteq> None \<or>
                                  str_find name ''vertical'' \<noteq> None \<or>
                                  str_find name ''y'' \<noteq> None
                               then TreadmillState.y tst else TreadmillState.x tst);
                        treadmillActive = (\<bar>treadmillValue\<bar> > 5 / 100)
                    in if treadmillActive then
                         (case inputMode cfg of
                            Override \<Rightarrow>
                              (result, Some (st\<lparr>currentState := treadmillValue,
                                               XrActionStateFloat.isActive := 1\<rparr>))
                          | Additive \<Rightarrow>
                              (result, Some (st\<lparr>currentState :=
                                                 clamp (currentState st + treadmillValue) (- 1) 1,
                                               XrActionStateFloat.isActive := 1\<rparr>))
                          | Smart \<Rightarrow>
                              (result, Some (st\<lparr>currentState := treadmillValue,
                                               XrActionStateFloat.isActive := 1\<rparr>)))
                       else (result, Some st)
                  else (result, Some st)
             else (result, Some st)
      | _ \<Rightarrow> (XR_ERROR_VALIDATION_FAILURE, state))"

subsection \<open>The system of the wrapper: state and operations\<close>

text \<open>
  The globals of the OpenVR wrapper that the operations below read or write, and the
  operations that reach them once the wrapper is loaded: the reader's callback, the
  shutdown, the connection test and the three intercepted reads. A read returns its
  value to the host (the second component of \<open>exec_op\<close>); on the globals it only
  loads.
\<close>

record Wrapper =
  g_treadmillState :: TreadmillState
  bridge :: OmniBridge

datatype Operation =
    OpOnOmniData "64 word" real int int
  | OpShutdown
  | OpIsConnected
  | OpGetAnalogActionData "64 word \<rightharpoonup> bool" "64 word" nat "InputAnalogActionData option" "64 word"
  | OpGetControllerState "32 word" bool "VRControllerState option"
  | OpGetControllerStateWithPose "32 word" bool "VRControllerState option"

datatype Output =
    NoOutput
  | OutConnected bool
  | OutAnalogActionData "nat \<times> InputAnalogActionData option"
  | OutControllerState "bool \<times> VRControllerState option"

fun exec_op :: "Config \<Rightarrow> Wrapper \<Rightarrow> Operation \<Rightarrow> Wrapper \<times> Output" where
  "exec_op cfg w (OpOnOmniData timestamp ringAngle gamePadX gamePadY) =
     (w\<lparr>g_treadmillState :=
          OmniBridge_OnOmniData cfg timestamp ringAngle gamePadX gamePadY (g_treadmillState w)\<rparr>,
      NoOutput)"
| "exec_op cfg w OpShutdown = (w\<lparr>bridge := Shutdown (bridge w)\<rparr>, NoOutput)"
| "exec_op cfg w OpIsConnected = (w, OutConnected (IsConnected (bridge w)))"
| "exec_op cfg w (OpGetAnalogActionData m action result pActionData dev) =
     (w, OutAnalogActionData
           (Wrapped_GetAnalogActionData cfg (bridge w) (g_treadmillState w) m action result
              pActionData dev))"
| "exec_op cfg w (OpGetControllerState idx result pControllerState) =
     (w, OutControllerState
           (Wrapped_GetControllerState cfg (bridge w) (g_treadmillState w) idx result
              pControllerState))"
| "exec_op cfg w (OpGetControllerStateWithPose idx result pControllerState) =
     (w, OutControllerState
           (Wrapped_GetControllerStateWithPose cfg (bridge w) (g_treadmillState w) idx result
              pControllerState))"

fun run :: "Config \<Rightarrow> Wrapper \<Rightarrow> Operation list \<Rightarrow> Wrapper" where
  "run cfg w [] = w"
| "run cfg w (opn # ops) = run cfg (fst (exec_op cfg w opn)) ops"

definition Wrapper_init :: Wrapper where
  "Wrapper_init =
     \<lparr>g_treadmillState = g_treadmillState_init,
      bridge = \<lparr>s_library = None, s_reader = None, s_connected = False\<rparr>\<rparr>"

fun is_ingest :: "Operation \<Rightarrow> bool" where
  "is_ingest (OpOnOmniData _ _ _ _) = True"
| "is_ingest _ = False"

subsection \<open>The server driver (driver_treadmill.cpp)\<close>

text \<open>\<^verbatim>\<open>struct XYState\<close>, without its mutex.\<close>

record XYState =
  x :: real
  y :: real
  yaw :: real
  x_smoothed :: real
  y_smoothed :: real
  yaw_smoothed :: real
  dataId :: "64 word"
  logCounter :: "64 word"
  lastHmdX :: real
  lastHmdZ :: real
  hmdInitialized :: bool

definition g_state_init :: XYState where
  "g_state_init =
     \<lparr>XYState.x = 0, y = 0, yaw = 0, x_smoothed = 0, y_smoothed = 0, yaw_smoothed = 0,
      dataId = 0, logCounter = 0, lastHmdX = 0, lastHmdZ = 0, hmdInitialized = False\<rparr>"

text \<open>
  The driver's callback \<^verbatim>\<open>OnOmniData\<close>, the body under the lock. \<open>g_smoothingFactor\<close>
  is the value loaded from the atomic of that name, \<open>timestamp\<close> the clock reading. The
  log line written on every fiftieth sample changes no state.
\<close>

definition OnOmniData :: "real \<Rightarrow> 64 word \<Rightarrow> real \<Rightarrow> int \<Rightarrow> int \<Rightarrow> XYState \<Rightarrow> XYState" where
  "OnOmniData g_smoothingFactor timestamp ringAngle gamePadX gamePadY g =
     (let raw_x = clamp ((of_int gamePadX - 127) / 127) (- 1) 1;
          raw_y = clamp (- (of_int gamePadY - 127) / 127) (- 1) 1;
          g = g\<lparr>XYState.x := raw_x, XYState.y := raw_y, XYState.yaw := ringAngle\<rparr>;
          alpha = g_smoothingFactor;
          g = g\<lparr>x_smoothed := alpha * raw_x + (1 - alpha) * x_smoothed g\<rparr>;
          g = g\<lparr>y_smoothed := alpha * raw_y + (1 - alpha) * y_smoothed g\<rparr>;
          yaw_diff = ringAngle - yaw_smoothed g;
          yaw_diff = (if yaw_diff > 180 then yaw_diff - 360 else yaw_diff);
          yaw_diff = (if yaw_diff < - 180 then yaw_diff + 360 else yaw_diff);
          g = g\<lparr>yaw_smoothed := yaw_smoothed g + alpha * yaw_diff\<rparr>;
          g = (if yaw_smoothed g < 0 then g\<lparr>yaw_smoothed := yaw_smoothed g + 360\<rparr> else g);
          g = (if yaw_smoothed g \<ge> 360 then g\<lparr>yaw_smoothed := yaw_smoothed g - 360\<rparr> else g)
      in g\<lparr>dataId := timestamp, logCounter := logCounter g + 1\<rparr>)"


text \<open>
  The pose types of the OpenVR driver interface, with the fields this driver writes.
  \<^verbatim>\<open>TrackingResult_Running_OK\<close> is 200 in \<^verbatim>\<open>openvr_driver.h\<close>. The tracking matrix
  \<^verbatim>\<open>m[3][4]\<close> is read as a function of row and column.
\<close>

record HmdQuaternion =
  w :: real
  x :: real
  y :: real
  z :: real

record DriverPose =
  poseTimeOffset :: real
  poseIsValid :: bool
  deviceIsConnected :: bool
  result :: nat
  vecPosition :: "real \<times> real \<times> real"
  qRotation :: HmdQuaternion

record TrackedDevicePose =
  bPoseIsValid :: bool
  mDeviceToAbsoluteTracking :: "nat \<Rightarrow> nat \<Rightarrow> real"

definition TrackingResult_Running_OK :: nat where
  "TrackingResult_Running_OK = 200"

definition DEG2RAD :: real where
  "DEG2RAD = 3.14159265358979323846 / 180"


text \<open>
  The movement analysis of \<^verbatim>\<open>TreadmillVisualTracker::GetPose\<close>: what it logs, if
  anything. Both log lines carry the deviation, the actual and the expected direction.
\<close>

datatype DirectionLog =
    DirectionMismatch real real real real real
  | DirectionOK real real real real real

definition direction_analysis ::
  "(real \<Rightarrow> real) \<Rightarrow> (real \<Rightarrow> real) \<Rightarrow> XYState \<Rightarrow> bool \<Rightarrow> real \<Rightarrow> real \<Rightarrow> DirectionLog option"
  where
  "direction_analysis cosd sind g hmdValid currentHmdX currentHmdZ =
     (let rawYaw = yaw_smoothed g;
          joystickX = x_smoothed g;
          joystickY = y_smoothed g
      in if hmdValid \<and> hmdInitialized g \<and> logCounter g mod 50 = 0 then
           let actualDeltaX = currentHmdX - lastHmdX g;
               actualDeltaZ = currentHmdZ - lastHmdZ g;
               actualDistance = sqrt (actualDeltaX * actualDeltaX + actualDeltaZ * actualDeltaZ)
           in if actualDistance > 5 / 100 then
                let actualDirX = actualDeltaX / actualDistance;
                    actualDirZ = actualDeltaZ / actualDistance;
                    yawRad = rawYaw * DEG2RAD;
                    sinYaw = sind yawRad;
                    cosYaw = cosd yawRad;
                    expectedWorldX = joystickX * cosYaw - joystickY * sinYaw;
                    expectedWorldZ = joystickX * sinYaw + joystickY * cosYaw;
                    expectedLength = sqrt (expectedWorldX * expectedWorldX +
                                           expectedWorldZ * expectedWorldZ)
                in if expectedLength > 1 / 100 then
                     let expectedWorldX = expectedWorldX / expectedLength;
                         expectedWorldZ = expectedWorldZ / expectedLength;
                         dotProduct = actualDirX * expectedWorldX + actualDirZ * expectedWorldZ;
                         dotProduct = clamp dotProduct (- 1) 1;
                         angleDiff = arccos dotProduct * 180 / 3.14159265358979323846
                     in if angleDiff > 5 then
                          Some (DirectionMismatch angleDiff actualDirX actualDirZ
                                  expectedWorldX expectedWorldZ)
                        else
                          Some (DirectionOK angleDiff actualDirX actualDirZ
                                  expectedWorldX expectedWorldZ)
                   else None
              else None
         else None)"

text \<open>
  The rotation of \<^verbatim>\<open>TreadmillVisualTracker::GetPose\<close>: the quaternion is built from the
  half angle and then divided by its length when the length exceeds 0.0001.
\<close>

definition tracker_rotation :: "(real \<Rightarrow> real) \<Rightarrow> (real \<Rightarrow> real) \<Rightarrow> real \<Rightarrow> HmdQuaternion" where
  "tracker_rotation cosd sind rawYaw =
     (let theta = rawYaw * DEG2RAD;
          half = theta * (1 / 2);
          c = cosd half;
          s = sind half;
          q = \<lparr>w = c, x = 0, y = - s, z = 0\<rparr>;
          qLength = sqrt (w q * w q + HmdQuaternion.x q * HmdQuaternion.x q +
                          HmdQuaternion.y q * HmdQuaternion.y q + z q * z q)
      in if qLength > 1 / 10000 then
           \<lparr>w = w q / qLength, x = HmdQuaternion.x q / qLength,
            y = HmdQuaternion.y q / qLength, z = z q / qLength\<rparr>
         else q)"

text \<open>
  \<^verbatim>\<open>TreadmillVisualTracker::GetPose\<close>, the body under the lock: the new driver state,
  the pose and the analysis line. \<open>hmdPose\<close> is what
  \<^verbatim>\<open>GetRawTrackedDevicePoses\<close> returned for the headset.
\<close>

definition TreadmillVisualTracker_GetPose ::
  "(real \<Rightarrow> real) \<Rightarrow> (real \<Rightarrow> real) \<Rightarrow> TrackedDevicePose \<Rightarrow> XYState \<Rightarrow> DriverPose \<Rightarrow>
   XYState \<times> DriverPose \<times> DirectionLog option" where
  "TreadmillVisualTracker_GetPose cosd sind hmdPose g m_pose =
     (let rawYaw = yaw_smoothed g;
          m_pose = m_pose\<lparr>poseIsValid := True, deviceIsConnected := True,
                          result := TrackingResult_Running_OK\<rparr>;
          hmdMatrix = mDeviceToAbsoluteTracking hmdPose;
          hmdValid = bPoseIsValid hmdPose;
          currentHmdX = (if hmdValid then hmdMatrix 0 3 else 0);
          currentHmdZ = (if hmdValid then hmdMatrix 2 3 else 0);
          m_pose = (if hmdValid
                    then m_pose\<lparr>vecPosition :=
                           (currentHmdX, hmdMatrix 1 3 - 3 / 10, currentHmdZ - 1 / 2)\<rparr>
                    else m_pose\<lparr>vecPosition := (0, 12 / 10, - (1 / 2))\<rparr>);
          report = direction_analysis cosd sind g hmdValid currentHmdX currentHmdZ;
          g = (if hmdValid
               then g\<lparr>lastHmdX := currentHmdX, lastHmdZ := currentHmdZ, hmdInitialized := True\<rparr>
               else g);
          m_pose = m_pose\<lparr>qRotation := tracker_rotation cosd sind rawYaw\<rparr>
      in (g, m_pose, report))"

subsection \<open>Notions of the specification\<close>




text \<open>
  The specification's pattern grammar, in its words, on the case-folded name and pattern:
  a leading and a trailing star ask for a substring, a leading star for a suffix, a
  trailing star for a prefix, no star for equality. The core is the pattern without its
  stars.
\<close>

definition glob_matches :: "string \<Rightarrow> string \<Rightarrow> bool" where
  "glob_matches name pattern =
     (let n = map tolower name;
          p = map tolower pattern;
          leading = (p \<noteq> [] \<and> hd p = CHR ''*'');
          trailing = (p \<noteq> [] \<and> last p = CHR ''*'')
      in if leading \<and> trailing then sublist (butlast (tl p)) n
         else if leading then suffix (tl p) n
         else if trailing then prefix (butlast p) n
         else n = p)"

text \<open>The length of a quaternion.\<close>

definition qnorm :: "HmdQuaternion \<Rightarrow> real" where
  "qnorm q = sqrt ((w q)\<^sup>2 + (HmdQuaternion.x q)\<^sup>2 + (HmdQuaternion.y q)\<^sup>2 + (z q)\<^sup>2)"

text \<open>
  Repeated ingest of one sample: \<open>n\<close> calls of the callback with the same ring angle and
  pad position, the \<open>i\<close>-th at clock reading \<open>clock i\<close>.
\<close>

fun ingest_n ::
  "Config \<Rightarrow> (nat \<Rightarrow> 64 word) \<Rightarrow> real \<Rightarrow> int \<Rightarrow> int \<Rightarrow> nat \<Rightarrow> TreadmillState \<Rightarrow> TreadmillState"
  where
  "ingest_n cfg clock ringAngle gamePadX gamePadY 0 st = st"
| "ingest_n cfg clock ringAngle gamePadX gamePadY (Suc n) st =
     OmniBridge_OnOmniData cfg (clock n) ringAngle gamePadX gamePadY
       (ingest_n cfg clock ringAngle gamePadX gamePadY n st)"

fun driver_ingest_n ::
  "real \<Rightarrow> (nat \<Rightarrow> 64 word) \<Rightarrow> real \<Rightarrow> int \<Rightarrow> int \<Rightarrow> nat \<Rightarrow> XYState \<Rightarrow> XYState" where
  "driver_ingest_n alpha clock ringAngle gamePadX gamePadY 0 g = g"
| "driver_ingest_n alpha clock ringAngle gamePadX gamePadY (Suc n) g =
     OnOmniData alpha (clock n) ringAngle gamePadX gamePadY
       (driver_ingest_n alpha clock ringAngle gamePadX gamePadY n g)"


text \<open>
  The processed pad sample that \<^verbatim>\<open>OmniBridge::OnOmniData\<close> hands to
  \<^verbatim>\<open>ApplySmoothing\<close> (\<open>padv\<close> is the normalised pad value, with the sign of the axis),
  and the raw sample that the driver's \<^verbatim>\<open>OnOmniData\<close> smooths.
\<close>

definition wrapper_target :: "Config \<Rightarrow> real \<Rightarrow> real" where
  "wrapper_target cfg padv =
     clamp (ApplyDeadzone padv (deadzone cfg) * speedMultiplier cfg) (- 1) 1"

definition driver_target :: "real \<Rightarrow> real" where
  "driver_target padv = clamp padv (- 1) 1"

subsection \<open>Sample values for the worked instances\<close>

text \<open>
  A connected bridge, an analog action buffer and a controller state as the real
  functions may leave them, and a movement map that knows action 7 as a movement action.
\<close>

definition example_bridge :: OmniBridge where
  "example_bridge = \<lparr>s_library = Some 1, s_reader = Some 1, s_connected = True\<rparr>"

definition example_analog :: InputAnalogActionData where
  "example_analog =
     \<lparr>bActive = False, activeOrigin = 0, InputAnalogActionData.x = 0, y = 0, z = 0,
      deltaX = 0, deltaY = 0, deltaZ = 0, fUpdateTime = 0\<rparr>"

definition example_controller :: VRControllerState where
  "example_controller =
     \<lparr>unPacketNum = 0, ulButtonPressed = 0, ulButtonTouched = 0,
      rAxis = [(1 / 2, 0), (0, 0), (0, 0), (0, 0), (0, 0)]\<rparr>"

definition example_movement :: "64 word \<rightharpoonup> bool" where
  "example_movement = [7 \<mapsto> True]"

definition example_pose :: DriverPose where
  "example_pose =
     \<lparr>poseTimeOffset = 0, poseIsValid = True, deviceIsConnected = True,
      result = TrackingResult_Running_OK, vecPosition = (0, 12 / 10, - (1 / 2)),
      qRotation = \<lparr>w = 1, x = 0, y = 0, z = 0\<rparr>\<rparr>"

text \<open>A headset pose at position \<open>(px, 1.7, pz)\<close>, valid or not.\<close>

definition example_hmd :: "bool \<Rightarrow> real \<Rightarrow> real \<Rightarrow> TrackedDevicePose" where
  "example_hmd valid px pz =
     \<lparr>bPoseIsValid = valid,
      mDeviceToAbsoluteTracking =
        (\<lambda>row col. if col = 3 then (if row = 0 then px else if row = 1 then 17 / 10 else pz)
                    else if row = col then 1 else 0)\<rparr>"

subsection \<open>Notions of the direction validator\<close>

text \<open>
  The claim's vocabulary for the validator: the length and the normalisation of a
  horizontal vector, the headset displacement since the previous sample, the joystick
  vector rotated by the smoothed yaw, and the deviation between two directions, in
  degrees with the source's constant for \<open>\<pi>\<close>. \<open>analysed\<close> says that the tick runs the
  analysis at all, \<open>classify_direction\<close> is the verdict on two directions, and
  \<open>validator_report\<close> is what a tick of the tracker's \<^verbatim>\<open>GetPose\<close> logs.
\<close>

definition vlen :: "real \<times> real \<Rightarrow> real" where
  "vlen v = sqrt (fst v * fst v + snd v * snd v)"

definition normalize2 :: "real \<times> real \<Rightarrow> real \<times> real" where
  "normalize2 v = (fst v / vlen v, snd v / vlen v)"

definition actual_delta :: "TrackedDevicePose \<Rightarrow> XYState \<Rightarrow> real \<times> real" where
  "actual_delta hmdPose g =
     (mDeviceToAbsoluteTracking hmdPose 0 3 - lastHmdX g,
      mDeviceToAbsoluteTracking hmdPose 2 3 - lastHmdZ g)"

definition expected_dir :: "XYState \<Rightarrow> real \<times> real" where
  "expected_dir g =
     (let theta = yaw_smoothed g * DEG2RAD
      in (x_smoothed g * cos theta - y_smoothed g * sin theta,
          x_smoothed g * sin theta + y_smoothed g * cos theta))"

definition angle_deviation :: "real \<times> real \<Rightarrow> real \<times> real \<Rightarrow> real" where
  "angle_deviation a e =
     arccos (clamp (fst (normalize2 a) * fst (normalize2 e) +
                    snd (normalize2 a) * snd (normalize2 e)) (- 1) 1)
       * 180 / 3.14159265358979323846"

definition analysed :: "TrackedDevicePose \<Rightarrow> XYState \<Rightarrow> bool" where
  "analysed hmdPose g = (bPoseIsValid hmdPose \<and> hmdInitialized g \<and> logCounter g mod 50 = 0)"

definition classify_direction :: "real \<times> real \<Rightarrow> real \<times> real \<Rightarrow> DirectionLog" where
  "classify_direction a e =
     (if angle_deviation a e > 5
      then DirectionMismatch (angle_deviation a e) (fst (normalize2 a)) (snd (normalize2 a))
             (fst (normalize2 e)) (snd (normalize2 e))
      else DirectionOK (angle_deviation a e) (fst (normalize2 a)) (snd (normalize2 a))
             (fst (normalize2 e)) (snd (normalize2 e)))"

definition validator_report ::
  "TrackedDevicePose \<Rightarrow> XYState \<Rightarrow> DriverPose \<Rightarrow> DirectionLog option" where
  "validator_report hmdPose g m_pose =
     snd (snd (TreadmillVisualTracker_GetPose cos sin hmdPose g m_pose))"

fun is_mismatch :: "DirectionLog option \<Rightarrow> bool" where
  "is_mismatch (Some (DirectionMismatch _ _ _ _ _)) = True"
| "is_mismatch _ = False"

fun is_ok :: "DirectionLog option \<Rightarrow> bool" where
  "is_ok (Some (DirectionOK _ _ _ _ _)) = True"
| "is_ok _ = False"

subsection \<open>The float reading of the two callbacks\<close>



definition ApplyDeadzone_fl :: "(real \<Rightarrow> real) \<Rightarrow> real \<Rightarrow> real \<Rightarrow> real" where
  "ApplyDeadzone_fl fl val deadzone' =
     (if \<bar>val\<bar> < deadzone' then 0
      else let sign = (if val > 0 then 1 else - 1)
           in fl (fl (sign * fl (\<bar>val\<bar> - deadzone')) / fl (1 - deadzone')))"

definition ApplySmoothing_fl :: "(real \<Rightarrow> real) \<Rightarrow> real \<Rightarrow> real \<Rightarrow> real \<Rightarrow> real" where
  "ApplySmoothing_fl fl current target factor =
     fl (current + fl (fl (target - current) * factor))"

definition OmniBridge_OnOmniData_fl ::
  "(real \<Rightarrow> real) \<Rightarrow> Config \<Rightarrow> 64 word \<Rightarrow> real \<Rightarrow> int \<Rightarrow> int \<Rightarrow> TreadmillState \<Rightarrow>
   TreadmillState" where
  "OmniBridge_OnOmniData_fl fl cfg timestamp ringAngle gamePadX gamePadY st =
     (let px = fl (fl (fl (of_int gamePadX) - 127) / 127);
          py = fl (- fl (fl (of_int gamePadY) - 127) / 127);
          px = ApplyDeadzone_fl fl px (deadzone cfg);
          py = ApplyDeadzone_fl fl py (deadzone cfg);
          px = fl (px * speedMultiplier cfg);
          py = fl (py * speedMultiplier cfg);
          px = clamp px (- 1) 1;
          py = clamp py (- 1) 1;
          prevX = TreadmillState.x st;
          prevY = TreadmillState.y st;
          smoothedX = ApplySmoothing_fl fl prevX px (smoothing cfg);
          smoothedY = ApplySmoothing_fl fl prevY py (smoothing cfg)
      in st\<lparr>TreadmillState.x := smoothedX,
            TreadmillState.y := smoothedY,
            TreadmillState.yaw := ringAngle,
            lastUpdateTime := timestamp,
            updateCount := updateCount st + 1,
            active := True\<rparr>)"

definition OnOmniData_fl ::
  "(real \<Rightarrow> real) \<Rightarrow> real \<Rightarrow> 64 word \<Rightarrow> real \<Rightarrow> int \<Rightarrow> int \<Rightarrow> XYState \<Rightarrow> XYState" where
  "OnOmniData_fl fl g_smoothingFactor timestamp ringAngle gamePadX gamePadY g =
     (let raw_x = clamp (fl (fl (fl (of_int gamePadX) - 127) / 127)) (- 1) 1;
          raw_y = clamp (fl (- fl (fl (of_int gamePadY) - 127) / 127)) (- 1) 1;
          g = g\<lparr>XYState.x := raw_x, XYState.y := raw_y, XYState.yaw := ringAngle\<rparr>;
          alpha = g_smoothingFactor;
          g = g\<lparr>x_smoothed := fl (fl (alpha * raw_x) + fl (fl (1 - alpha) * x_smoothed g))\<rparr>;
          g = g\<lparr>y_smoothed := fl (fl (alpha * raw_y) + fl (fl (1 - alpha) * y_smoothed g))\<rparr>;
          yaw_diff = fl (ringAngle - yaw_smoothed g);
          yaw_diff = (if yaw_diff > 180 then fl (yaw_diff - 360) else yaw_diff);
          yaw_diff = (if yaw_diff < - 180 then fl (yaw_diff + 360) else yaw_diff);
          g = g\<lparr>yaw_smoothed := fl (yaw_smoothed g + fl (alpha * yaw_diff))\<rparr>;
          g = (if yaw_smoothed g < 0 then g\<lparr>yaw_smoothed := fl (yaw_smoothed g + 360)\<rparr> else g);
          g = (if yaw_smoothed g \<ge> 360 then g\<lparr>yaw_smoothed := fl (yaw_smoothed g - 360)\<rparr>
               else g)
      in g\<lparr>dataId := timestamp, logCounter := logCounter g + 1\<rparr>)"






section \<open>Verification\<close>

subsection \<open>Deadzone\<close>

lemma ApplyDeadzone_max:
  assumes "0 \<le> d"
  shows "ApplyDeadzone v d = (max 0 (v - d) - max 0 (- v - d)) / (1 - d)"
  using assms by (auto simp: ApplyDeadzone_def Let_def max_def abs_if divide_simps)

lemma ApplyDeadzone_continuous:
  assumes "0 \<le> d" and "d < 1"
  shows "continuous_on UNIV (\<lambda>v. ApplyDeadzone v d)"
proof -
  have "continuous_on UNIV (\<lambda>v::real. (max 0 (v - d) - max 0 (- v - d)) / (1 - d))"
    using assms by (intro continuous_intros) auto
  then show ?thesis
    using ApplyDeadzone_max [OF assms(1)] by simp
qed

text \<open>
  Claim C4. For every real \<open>v\<close> and every deadzone \<open>d\<close> with \<open>0 \<le> d < 1\<close>,
  \<open>ApplyDeadzone v d\<close> is 0 when \<open>\<bar>v\<bar> < d\<close> and \<open>sgn v * (\<bar>v\<bar> - d) / (1 - d)\<close>
  otherwise; it is 0 on the boundary \<open>\<bar>v\<bar> = d\<close>, has magnitude 1 at \<open>\<bar>v\<bar> = 1\<close>, and is
  a continuous function of \<open>v\<close>.
\<close>

theorem ApplyDeadzone_rescale:
  assumes "0 \<le> d" and "d < 1"
  shows "(ApplyDeadzone v d = (if \<bar>v\<bar> < d then 0 else sgn v * (\<bar>v\<bar> - d) / (1 - d)))
       \<and> (\<bar>v\<bar> = d \<longrightarrow> ApplyDeadzone v d = 0)
       \<and> (\<bar>v\<bar> = 1 \<longrightarrow> \<bar>ApplyDeadzone v d\<bar> = 1)
       \<and> continuous_on UNIV (\<lambda>u. ApplyDeadzone u d)"
proof (intro conjI impI)
  show "ApplyDeadzone v d = (if \<bar>v\<bar> < d then 0 else sgn v * (\<bar>v\<bar> - d) / (1 - d))"
    using assms by (auto simp: ApplyDeadzone_def Let_def sgn_if)
  show "ApplyDeadzone v d = 0" if "\<bar>v\<bar> = d"
    using that by (simp add: ApplyDeadzone_def Let_def)
  show "\<bar>ApplyDeadzone v d\<bar> = 1" if "\<bar>v\<bar> = 1"
    using that assms by (auto simp: ApplyDeadzone_def Let_def abs_if)
  show "continuous_on UNIV (\<lambda>u. ApplyDeadzone u d)"
    using assms by (intro ApplyDeadzone_continuous)
qed

theorem ApplyDeadzone_rescale_witness:
  "(0::real) \<le> 1 / 10 \<and> (1 / 10 :: real) < 1
   \<and> ApplyDeadzone (1 / 20) (1 / 10) = 0
   \<and> ApplyDeadzone (- 1 / 10) (1 / 10) = 0
   \<and> ApplyDeadzone (11 / 20) (1 / 10) = 1 / 2
   \<and> \<bar>ApplyDeadzone (- 1) (1 / 10)\<bar> = 1"
  using ApplyDeadzone_rescale [of "1 / 10" "1 / 20"] ApplyDeadzone_rescale [of "1 / 10" "- 1 / 10"]
    ApplyDeadzone_rescale [of "1 / 10" "11 / 20"] ApplyDeadzone_rescale [of "1 / 10" "- 1"]
  by simp

subsection \<open>Linear smoothing\<close>

lemma ApplySmoothing_error: "ApplySmoothing s r a - r = (1 - a) * (s - r)"
  by (simp add: ApplySmoothing_def algebra_simps)

lemma ema_seq_error:
  assumes "\<And>n. f (Suc n) = ApplySmoothing (f n) r a"
  shows "f n - r = (1 - a) ^ n * (f 0 - r)"
proof (induction n)
  case 0
  show ?case by simp
next
  case (Suc n)
  have "f (Suc n) - r = (1 - a) * (f n - r)"
    by (simp add: assms ApplySmoothing_error)
  with Suc show ?case by simp
qed

lemma ema_seq_limit:
  assumes "0 < a" and "a < 1" and "\<And>n. f (Suc n) = ApplySmoothing (f n) r a"
  shows "f \<longlonglongrightarrow> r"
proof -
  have eq: "(\<lambda>n. f n - r) = (\<lambda>n. (1 - a) ^ n * (f 0 - r))"
  proof (rule ext)
    fix n
    show "f n - r = (1 - a) ^ n * (f 0 - r)"
      using assms(3) by (rule ema_seq_error)
  qed
  have "(\<lambda>n. (1 - a) ^ n) \<longlonglongrightarrow> 0"
    using assms(1,2) by (intro LIMSEQ_realpow_zero) auto
  then have "(\<lambda>n. (1 - a) ^ n * (f 0 - r)) \<longlonglongrightarrow> 0"
    by (rule tendsto_mult_left_zero)
  then have "(\<lambda>n. f n - r) \<longlonglongrightarrow> 0"
    by (simp only: eq)
  then show ?thesis
    by (simp only: LIM_zero_iff)
qed

lemma OnOmniData_x:
  "TreadmillState.x (OmniBridge_OnOmniData cfg ts ang px py st) =
     ApplySmoothing (TreadmillState.x st) (wrapper_target cfg ((of_int px - 127) / 127)) (smoothing cfg)"
  by (simp add: OmniBridge_OnOmniData_def wrapper_target_def Let_def)


lemma OnOmniData_y:
  "TreadmillState.y (OmniBridge_OnOmniData cfg ts ang px py st) =
     ApplySmoothing (TreadmillState.y st) (wrapper_target cfg (- (of_int py - 127) / 127)) (smoothing cfg)"
  by (simp add: OmniBridge_OnOmniData_def wrapper_target_def Let_def)

lemma driver_OnOmniData_x:
  "x_smoothed (OnOmniData a ts ang px py g) =
     ApplySmoothing (x_smoothed g) (driver_target ((of_int px - 127) / 127)) a"
  by (simp add: OnOmniData_def driver_target_def Let_def ApplySmoothing_def algebra_simps)

lemma driver_OnOmniData_y:
  "y_smoothed (OnOmniData a ts ang px py g) =
     ApplySmoothing (y_smoothed g) (driver_target (- (of_int py - 127) / 127)) a"
  by (simp add: OnOmniData_def driver_target_def Let_def ApplySmoothing_def algebra_simps)

text \<open>
  Exact arithmetic. If no operation rounded (the identity for \<open>fl\<close>), one smoothing
  step with a factor \<open>a\<close>, \<open>0 < a < 1\<close>, would multiply the error by \<open>1 - a\<close>, and
  the stored pad values would converge under repeated ingest of one sample. This is a
  property of the formula over the reals; the float reading below shows that the code
  does not have it.
\<close>

lemma ema_exact_arithmetic:
  assumes "0 < a" and "a < 1"
  shows "\<bar>ApplySmoothing s r a - r\<bar> = (1 - a) * \<bar>s - r\<bar>
    \<and> (s \<noteq> r \<longrightarrow> \<bar>ApplySmoothing s r a - r\<bar> < \<bar>s - r\<bar>)
    \<and> (\<lambda>n. ((\<lambda>v. ApplySmoothing v r a) ^^ n) s) \<longlonglongrightarrow> r
    \<and> (smoothing cfg = a \<longrightarrow>
         (\<lambda>n. TreadmillState.x (ingest_n cfg clock ang px py n st))
           \<longlonglongrightarrow> wrapper_target cfg ((of_int px - 127) / 127)
       \<and> (\<lambda>n. TreadmillState.y (ingest_n cfg clock ang px py n st))
           \<longlonglongrightarrow> wrapper_target cfg (- (of_int py - 127) / 127))
    \<and> (\<lambda>n. x_smoothed (driver_ingest_n a clock ang px py n g))
           \<longlonglongrightarrow> driver_target ((of_int px - 127) / 127)
    \<and> (\<lambda>n. y_smoothed (driver_ingest_n a clock ang px py n g))
           \<longlonglongrightarrow> driver_target (- (of_int py - 127) / 127)"
proof (intro conjI impI)
  have err: "\<bar>ApplySmoothing s r a - r\<bar> = \<bar>1 - a\<bar> * \<bar>s - r\<bar>"
    by (simp add: ApplySmoothing_error abs_mult)
  then show step: "\<bar>ApplySmoothing s r a - r\<bar> = (1 - a) * \<bar>s - r\<bar>"
    using assms by simp
  show "\<bar>ApplySmoothing s r a - r\<bar> < \<bar>s - r\<bar>" if "s \<noteq> r"
  proof -
    have "0 < \<bar>s - r\<bar>" using that by simp
    then have "(1 - a) * \<bar>s - r\<bar> < 1 * \<bar>s - r\<bar>"
      using assms by (intro mult_strict_right_mono) auto
    then show ?thesis using step by simp
  qed
  show "(\<lambda>n. ((\<lambda>v. ApplySmoothing v r a) ^^ n) s) \<longlonglongrightarrow> r"
    using assms by (intro ema_seq_limit [where a = a]) simp_all
  show "(\<lambda>n. TreadmillState.x (ingest_n cfg clock ang px py n st))
           \<longlonglongrightarrow> wrapper_target cfg ((of_int px - 127) / 127)" if "smoothing cfg = a"
    using assms that by (intro ema_seq_limit [where a = a]) (simp_all add: OnOmniData_x)
  show "(\<lambda>n. TreadmillState.y (ingest_n cfg clock ang px py n st))
           \<longlonglongrightarrow> wrapper_target cfg (- (of_int py - 127) / 127)" if "smoothing cfg = a"
    using assms that by (intro ema_seq_limit [where a = a]) (simp_all add: OnOmniData_y)
  show "(\<lambda>n. x_smoothed (driver_ingest_n a clock ang px py n g))
           \<longlonglongrightarrow> driver_target ((of_int px - 127) / 127)"
    using assms by (intro ema_seq_limit [where a = a]) (simp_all add: driver_OnOmniData_x)
  show "(\<lambda>n. y_smoothed (driver_ingest_n a clock ang px py n g))
           \<longlonglongrightarrow> driver_target (- (of_int py - 127) / 127)"
    using assms by (intro ema_seq_limit [where a = a]) (simp_all add: driver_OnOmniData_y)
qed

subsection \<open>The smoothing step in the arithmetic of the code\<close>






















lemma ApplyDeadzone_fl_exact: "ApplyDeadzone_fl (\<lambda>v. v) v d = ApplyDeadzone v d"
  by (simp add: ApplyDeadzone_fl_def ApplyDeadzone_def)

lemma ApplySmoothing_fl_exact: "ApplySmoothing_fl (\<lambda>v. v) c t f = ApplySmoothing c t f"
  by (simp add: ApplySmoothing_fl_def ApplySmoothing_def)

lemma OmniBridge_OnOmniData_fl_exact:
  "OmniBridge_OnOmniData_fl (\<lambda>v. v) cfg ts ang gx gy st = OmniBridge_OnOmniData cfg ts ang gx gy st"
  by (simp add: OmniBridge_OnOmniData_fl_def OmniBridge_OnOmniData_def ApplyDeadzone_fl_exact
      ApplySmoothing_fl_exact)

lemma OnOmniData_fl_exact:
  "OnOmniData_fl (\<lambda>v. v) a ts ang gx gy g = OnOmniData a ts ang gx gy g"
  by (simp add: OnOmniData_fl_def OnOmniData_def)









subsection \<open>The active flag\<close>

lemma exec_op_active:
  "active (g_treadmillState (fst (exec_op cfg sys opn))) =
     (active (g_treadmillState sys) \<or> is_ingest opn)"
  by (cases opn) (simp_all add: OmniBridge_OnOmniData_def Let_def)

lemma run_active:
  "active (g_treadmillState (run cfg sys ops)) =
     (active (g_treadmillState sys) \<or> (\<exists>opn \<in> set ops. is_ingest opn))"
  by (induction ops arbitrary: sys) (auto simp: exec_op_active)

text \<open>
  Claim C10. The \<open>active\<close> field is false in the initial state, true after any ingest,
  and once true it stays true through every sequence of ingests, reads, policy
  applications and shutdowns: after a run from the initial state it is true exactly when
  the run holds an ingest.
\<close>

theorem active_latched:
  "\<not> active (g_treadmillState Wrapper_init)
   \<and> active (g_treadmillState (fst (exec_op cfg sys (OpOnOmniData ts ang px py))))
   \<and> (active (g_treadmillState sys) \<longrightarrow> active (g_treadmillState (run cfg sys ops)))
   \<and> (active (g_treadmillState (run cfg Wrapper_init ops)) = (\<exists>opn \<in> set ops. is_ingest opn))"
proof (intro conjI impI)
  show init: "\<not> active (g_treadmillState Wrapper_init)"
    by (simp add: Wrapper_init_def g_treadmillState_init_def)
  show "active (g_treadmillState (fst (exec_op cfg sys (OpOnOmniData ts ang px py))))"
    by (simp add: OmniBridge_OnOmniData_def Let_def)
  show "active (g_treadmillState (run cfg sys ops))" if "active (g_treadmillState sys)"
    using that by (simp add: run_active)
  show "active (g_treadmillState (run cfg Wrapper_init ops)) = (\<exists>opn \<in> set ops. is_ingest opn)"
    using init by (simp add: run_active)
qed

theorem active_latched_witness:
  "active (g_treadmillState (run Config_default Wrapper_init
      [OpIsConnected, OpOnOmniData 7 90 255 127, OpShutdown, OpGetControllerState 1 True None]))
   \<and> \<not> active (g_treadmillState (run Config_default Wrapper_init [OpIsConnected, OpShutdown]))"
  using active_latched [of Config_default Wrapper_init 0 0 0 0
      "[OpIsConnected, OpOnOmniData 7 90 255 127, OpShutdown, OpGetControllerState 1 True None]"]
    active_latched [of Config_default Wrapper_init 0 0 0 0 "[OpIsConnected, OpShutdown]"]
  by simp

subsection \<open>Injection policy\<close>
lemma analog_smart_override:
  "Wrapped_GetAnalogActionData (cfg\<lparr>inputMode := Smart\<rparr>) br tst m a r p dev =
   Wrapped_GetAnalogActionData (cfg\<lparr>inputMode := Override\<rparr>) br tst m a r p dev"
  by (cases p) (simp_all add: Wrapped_GetAnalogActionData_def Let_def)

lemma controller_smart_override:
  "Wrapped_GetControllerState (cfg\<lparr>inputMode := Smart\<rparr>) br tst idx r p =
   Wrapped_GetControllerState (cfg\<lparr>inputMode := Override\<rparr>) br tst idx r p"
  by (cases p) (simp_all add: Wrapped_GetControllerState_def Let_def)

lemma controller_pose_smart_override:
  "Wrapped_GetControllerStateWithPose (cfg\<lparr>inputMode := Smart\<rparr>) br tst idx r p =
   Wrapped_GetControllerStateWithPose (cfg\<lparr>inputMode := Override\<rparr>) br tst idx r p"
  by (cases p) (simp_all add: Wrapped_GetControllerStateWithPose_def Let_def)

lemma vector2f_smart_override:
  "TreadmillLayer_xrGetActionStateVector2f (cfg\<lparr>inputMode := Smart\<rparr>) br tst m rp gi st rc =
   TreadmillLayer_xrGetActionStateVector2f (cfg\<lparr>inputMode := Override\<rparr>) br tst m rp gi st rc"
  by (simp add: TreadmillLayer_xrGetActionStateVector2f_def Let_def
      split: option.splits bool.splits)

lemma float_smart_override:
  "TreadmillLayer_xrGetActionStateFloat (cfg\<lparr>inputMode := Smart\<rparr>) br tst m nm rp gi st rc =
   TreadmillLayer_xrGetActionStateFloat (cfg\<lparr>inputMode := Override\<rparr>) br tst m nm rp gi st rc"
  by (simp add: TreadmillLayer_xrGetActionStateFloat_def Let_def
      split: option.splits bool.splits)

lemma analog_smart_value:
  assumes "m a = Some True" and "IsConnected br"
  shows "Wrapped_GetAnalogActionData (cfg\<lparr>inputMode := Smart\<rparr>) br tst m a VRInputError_None (Some d) dev =
     (VRInputError_None,
      Some (if \<bar>TreadmillState.x tst\<bar> > 5 / 100 \<or> \<bar>TreadmillState.y tst\<bar> > 5 / 100
            then d\<lparr>InputAnalogActionData.x := TreadmillState.x tst,
                   InputAnalogActionData.y := TreadmillState.y tst, bActive := True\<rparr>
            else d))"
  using assms by (simp add: Wrapped_GetAnalogActionData_def Let_def)

lemma vector2f_smart_value:
  assumes "m a = Some True" and "IsConnected br" and "XR_SUCCEEDED rc"
  shows "TreadmillLayer_xrGetActionStateVector2f (cfg\<lparr>inputMode := Smart\<rparr>) br tst m True (Some a) (Some st0) (rc, st) =
     (rc,
      Some (if \<bar>TreadmillState.x tst\<bar> > 5 / 100 \<or> \<bar>TreadmillState.y tst\<bar> > 5 / 100
            then st\<lparr>XrActionStateVector2f.x := TreadmillState.x tst,
                   XrActionStateVector2f.y := TreadmillState.y tst,
                   XrActionStateVector2f.isActive := 1\<rparr>
            else st))"
  using assms by (simp add: TreadmillLayer_xrGetActionStateVector2f_def Let_def)

lemma controller_smart_value:
  assumes "IsConnected br" and "targetControllerIndex cfg < 0 \<or> sint idx = targetControllerIndex cfg"
  shows "Wrapped_GetControllerState (cfg\<lparr>inputMode := Smart\<rparr>) br tst idx True (Some cs) =
     (True,
      Some (if \<bar>TreadmillState.x tst\<bar> > 5 / 100 \<or> \<bar>TreadmillState.y tst\<bar> > 5 / 100
            then cs\<lparr>rAxis := (rAxis cs)[0 := (TreadmillState.x tst, TreadmillState.y tst)]\<rparr>
            else cs))"
  using assms by (auto simp add: Wrapped_GetControllerState_def Let_def k_EControllerAxis_Joystick_def)

lemma analog_additive:
  assumes "m a = Some True" and "IsConnected br" and "inputMode cfg = Additive"
  shows "Wrapped_GetAnalogActionData cfg br tst m a VRInputError_None (Some d) dev =
     (VRInputError_None,
      Some (d\<lparr>InputAnalogActionData.x :=
                 clamp (InputAnalogActionData.x d + TreadmillState.x tst) (- 1) 1,
               InputAnalogActionData.y :=
                 clamp (InputAnalogActionData.y d + TreadmillState.y tst) (- 1) 1,
               bActive := (bActive d \<or> \<bar>TreadmillState.x tst\<bar> > 5 / 100
                                     \<or> \<bar>TreadmillState.y tst\<bar> > 5 / 100)\<rparr>))"
  using assms by (simp add: Wrapped_GetAnalogActionData_def Let_def)

lemma controller_additive:
  assumes "IsConnected br" and "inputMode cfg = Additive"
    and "targetControllerIndex cfg < 0 \<or> sint idx = targetControllerIndex cfg"
  shows "Wrapped_GetControllerState cfg br tst idx True (Some cs) =
     (True,
      Some (if \<bar>TreadmillState.x tst\<bar> > 5 / 100 \<or> \<bar>TreadmillState.y tst\<bar> > 5 / 100
            then cs\<lparr>rAxis := (rAxis cs)
                   [0 := (clamp (fst (rAxis cs ! 0) + TreadmillState.x tst) (- 1) 1,
                          clamp (snd (rAxis cs ! 0) + TreadmillState.y tst) (- 1) 1)]\<rparr>
            else cs))"
  using assms by (auto simp add: Wrapped_GetControllerState_def Let_def k_EControllerAxis_Joystick_def)

lemma sint_differs:
  assumes "0 \<le> t" and "uint (idx :: 32 word) \<noteq> t"
  shows "sint idx \<noteq> t"
proof
  assume eq: "sint idx = t"
  have "sint idx < 2 ^ 32"
    using sint_lt [of idx] by simp
  moreover have "0 \<le> sint idx"
    using eq assms(1) by simp
  ultimately have "take_bit 32 (sint idx) = sint idx"
    by (intro take_bit_int_eq_self)
  then have "uint idx = sint idx"
    by (simp add: uint_sint)
  with eq assms(2) show False by simp
qed

lemma controller_filter:
  assumes "targetControllerIndex cfg \<ge> 0" and "uint idx \<noteq> targetControllerIndex cfg"
  shows "Wrapped_GetControllerState cfg br tst idx r p = (r, p)"
  using sint_differs [OF assms] assms(1)
  by (cases p) (simp_all add: Wrapped_GetControllerState_def Let_def)

lemma controller_pose_filter:
  assumes "targetControllerIndex cfg \<ge> 0" and "uint idx \<noteq> targetControllerIndex cfg"
  shows "Wrapped_GetControllerStateWithPose cfg br tst idx r p = (r, p)"
  using sint_differs [OF assms] assms(1)
  by (cases p) (simp_all add: Wrapped_GetControllerStateWithPose_def Let_def)

lemma analog_no_filter:
  "Wrapped_GetAnalogActionData (cfg\<lparr>targetControllerIndex := t\<rparr>) br tst m a r p dev =
   Wrapped_GetAnalogActionData cfg br tst m a r p dev'"
  by (cases p) (simp_all add: Wrapped_GetAnalogActionData_def Let_def)


text \<open>
  Claim C3. Under \<open>Smart\<close> every interception gives exactly the result it gives
  under \<open>Override\<close>, for every input: the analog action read and the two controller
  state reads of the OpenVR wrapper, the vector and the scalar read of the OpenXR layer.
  On a movement action with the bridge connected the treadmill value is injected and
  the active flag set exactly when the treadmill is active; otherwise the host's value
  and flag come back unchanged.
\<close>

theorem smart_is_override:
  "Wrapped_GetAnalogActionData (cfg\<lparr>inputMode := Smart\<rparr>) br tst m a r p dev =
     Wrapped_GetAnalogActionData (cfg\<lparr>inputMode := Override\<rparr>) br tst m a r p dev
   \<and> TreadmillLayer_xrGetActionStateVector2f (cfg\<lparr>inputMode := Smart\<rparr>) br tst mx rp gi sv rcv =
     TreadmillLayer_xrGetActionStateVector2f (cfg\<lparr>inputMode := Override\<rparr>) br tst mx rp gi sv rcv
   \<and> TreadmillLayer_xrGetActionStateFloat (cfg\<lparr>inputMode := Smart\<rparr>) br tst mx nm rp gi sf rcf =
     TreadmillLayer_xrGetActionStateFloat (cfg\<lparr>inputMode := Override\<rparr>) br tst mx nm rp gi sf rcf
   \<and> Wrapped_GetControllerState (cfg\<lparr>inputMode := Smart\<rparr>) br tst idx rb pc =
     Wrapped_GetControllerState (cfg\<lparr>inputMode := Override\<rparr>) br tst idx rb pc
   \<and> Wrapped_GetControllerStateWithPose (cfg\<lparr>inputMode := Smart\<rparr>) br tst idx rb pc =
     Wrapped_GetControllerStateWithPose (cfg\<lparr>inputMode := Override\<rparr>) br tst idx rb pc
   \<and> (m a = Some True \<and> IsConnected br \<longrightarrow>
        Wrapped_GetAnalogActionData (cfg\<lparr>inputMode := Smart\<rparr>) br tst m a VRInputError_None
            (Some d) dev =
          (VRInputError_None,
           Some (if \<bar>TreadmillState.x tst\<bar> > 5 / 100 \<or> \<bar>TreadmillState.y tst\<bar> > 5 / 100
                 then d\<lparr>InputAnalogActionData.x := TreadmillState.x tst,
                        InputAnalogActionData.y := TreadmillState.y tst, bActive := True\<rparr>
                 else d)))
   \<and> (mx ax = Some True \<and> IsConnected br \<and> XR_SUCCEEDED rc \<longrightarrow>
        TreadmillLayer_xrGetActionStateVector2f (cfg\<lparr>inputMode := Smart\<rparr>) br tst mx True
            (Some ax) (Some sv0) (rc, sv1) =
          (rc,
           Some (if \<bar>TreadmillState.x tst\<bar> > 5 / 100 \<or> \<bar>TreadmillState.y tst\<bar> > 5 / 100
                 then sv1\<lparr>XrActionStateVector2f.x := TreadmillState.x tst,
                          XrActionStateVector2f.y := TreadmillState.y tst,
                          XrActionStateVector2f.isActive := 1\<rparr>
                 else sv1)))
   \<and> (IsConnected br \<and> (targetControllerIndex cfg < 0 \<or> sint idx = targetControllerIndex cfg) \<longrightarrow>
        Wrapped_GetControllerState (cfg\<lparr>inputMode := Smart\<rparr>) br tst idx True (Some cs) =
          (True,
           Some (if \<bar>TreadmillState.x tst\<bar> > 5 / 100 \<or> \<bar>TreadmillState.y tst\<bar> > 5 / 100
                 then cs\<lparr>rAxis := (rAxis cs)[0 := (TreadmillState.x tst, TreadmillState.y tst)]\<rparr>
                 else cs)))"
  by (intro conjI impI analog_smart_override vector2f_smart_override float_smart_override
      controller_smart_override controller_pose_smart_override analog_smart_value
      vector2f_smart_value controller_smart_value) simp_all

theorem smart_is_override_witness:
  "Wrapped_GetAnalogActionData (Config_default\<lparr>inputMode := Smart\<rparr>) example_bridge
      (g_treadmillState_init\<lparr>TreadmillState.x := 1 / 2\<rparr>) example_movement 7 VRInputError_None
      (Some example_analog) 0 =
     (VRInputError_None,
      Some (example_analog\<lparr>InputAnalogActionData.x := 1 / 2, InputAnalogActionData.y := 0,
                            bActive := True\<rparr>))
   \<and> Wrapped_GetAnalogActionData (Config_default\<lparr>inputMode := Override\<rparr>) example_bridge
      (g_treadmillState_init\<lparr>TreadmillState.x := 1 / 2\<rparr>) example_movement 7 VRInputError_None
      (Some example_analog) 0 =
     (VRInputError_None,
      Some (example_analog\<lparr>InputAnalogActionData.x := 1 / 2, InputAnalogActionData.y := 0,
                            bActive := True\<rparr>))
   \<and> Wrapped_GetControllerState (Config_default\<lparr>inputMode := Smart\<rparr>) example_bridge
      (g_treadmillState_init\<lparr>TreadmillState.x := 1 / 100\<rparr>) 1 True (Some example_controller) =
     (True, Some example_controller)"
proof -
  have h1: "example_movement 7 = Some True \<and> IsConnected example_bridge"
    by (simp add: example_movement_def example_bridge_def IsConnected_def)
  have h2: "IsConnected example_bridge \<and>
      (targetControllerIndex Config_default < 0 \<or> sint (1 :: 32 word) = targetControllerIndex Config_default)"
    by (simp add: example_bridge_def IsConnected_def Config_default_def)
  note eqs = smart_is_override [where cfg = Config_default and br = example_bridge
        and tst = "g_treadmillState_init\<lparr>TreadmillState.x := 1 / 2\<rparr>" and m = example_movement
        and a = 7 and r = VRInputError_None and p = "Some example_analog" and dev = 0
        and d = example_analog]
  note ctl = smart_is_override [where cfg = Config_default and br = example_bridge
        and tst = "g_treadmillState_init\<lparr>TreadmillState.x := 1 / 100\<rparr>" and idx = 1
        and cs = example_controller]
  have a: "Wrapped_GetAnalogActionData (Config_default\<lparr>inputMode := Smart\<rparr>) example_bridge
      (g_treadmillState_init\<lparr>TreadmillState.x := 1 / 2\<rparr>) example_movement 7 VRInputError_None
      (Some example_analog) 0 =
     (VRInputError_None,
      Some (example_analog\<lparr>InputAnalogActionData.x := 1 / 2, InputAnalogActionData.y := 0,
                            bActive := True\<rparr>))"
    using eqs [THEN conjunct2, THEN conjunct2, THEN conjunct2, THEN conjunct2, THEN conjunct2,
        THEN conjunct1, THEN mp, OF h1]
    by (simp add: g_treadmillState_init_def)
  have b: "Wrapped_GetAnalogActionData (Config_default\<lparr>inputMode := Override\<rparr>) example_bridge
      (g_treadmillState_init\<lparr>TreadmillState.x := 1 / 2\<rparr>) example_movement 7 VRInputError_None
      (Some example_analog) 0 =
     (VRInputError_None,
      Some (example_analog\<lparr>InputAnalogActionData.x := 1 / 2, InputAnalogActionData.y := 0,
                            bActive := True\<rparr>))"
    using eqs [THEN conjunct1] a by simp
  have c: "Wrapped_GetControllerState (Config_default\<lparr>inputMode := Smart\<rparr>) example_bridge
      (g_treadmillState_init\<lparr>TreadmillState.x := 1 / 100\<rparr>) 1 True (Some example_controller) =
     (True, Some example_controller)"
    using ctl [THEN conjunct2, THEN conjunct2, THEN conjunct2, THEN conjunct2, THEN conjunct2,
        THEN conjunct2, THEN conjunct2, THEN mp, OF h2]
    by (simp add: g_treadmillState_init_def)
  from a b c show ?thesis by simp
qed

text \<open>
  Claim C2, amended. Under \<open>Additive\<close> the analog action read of a movement action
  returns \<open>clamp (current + treadmill) (-1) 1\<close> on each axis for every host and
  treadmill value, the treadmill active or not, and the flag
  \<open>current.active \<or> treadmillActive\<close>. The controller state read adds (and clamps)
  only while the treadmill is active and returns the host's state unchanged otherwise;
  it has no active flag.
\<close>

theorem additive_policy:
  "(m a = Some True \<and> IsConnected br \<and> inputMode cfg = Additive \<longrightarrow>
      Wrapped_GetAnalogActionData cfg br tst m a VRInputError_None (Some d) dev =
        (VRInputError_None,
         Some (d\<lparr>InputAnalogActionData.x :=
                    clamp (InputAnalogActionData.x d + TreadmillState.x tst) (- 1) 1,
                  InputAnalogActionData.y :=
                    clamp (InputAnalogActionData.y d + TreadmillState.y tst) (- 1) 1,
                  bActive := (bActive d \<or> \<bar>TreadmillState.x tst\<bar> > 5 / 100
                                        \<or> \<bar>TreadmillState.y tst\<bar> > 5 / 100)\<rparr>)))
   \<and> (IsConnected br \<and> inputMode cfg = Additive \<and>
        (targetControllerIndex cfg < 0 \<or> sint idx = targetControllerIndex cfg) \<longrightarrow>
      Wrapped_GetControllerState cfg br tst idx True (Some cs) =
        (True,
         Some (if \<bar>TreadmillState.x tst\<bar> > 5 / 100 \<or> \<bar>TreadmillState.y tst\<bar> > 5 / 100
               then cs\<lparr>rAxis := (rAxis cs)
                      [0 := (clamp (fst (rAxis cs ! 0) + TreadmillState.x tst) (- 1) 1,
                             clamp (snd (rAxis cs ! 0) + TreadmillState.y tst) (- 1) 1)]\<rparr>
               else cs)))"
  by (intro conjI impI analog_additive controller_additive) simp_all

text \<open>
  The claim as stated fails on the controller state read: with the treadmill at
  \<open>(0.03, 0)\<close>, which is inactive, and the host's joystick at \<open>(0.5, 0)\<close> the read
  returns the host's state, where the claim asks for \<open>0.53\<close>.
\<close>

theorem additive_inactive_counterexample:
  "Wrapped_GetControllerState (Config_default\<lparr>inputMode := Additive\<rparr>) example_bridge
      (g_treadmillState_init\<lparr>TreadmillState.x := 3 / 100\<rparr>) 1 True (Some example_controller) =
     (True, Some example_controller)
   \<and> fst (rAxis example_controller ! 0) = 1 / 2
   \<and> clamp (fst (rAxis example_controller ! 0) + 3 / 100) (- 1) 1 = 53 / 100"
  by (simp add: Wrapped_GetControllerState_def Config_default_def example_bridge_def
      g_treadmillState_init_def example_controller_def IsConnected_def clamp_def Let_def)

theorem additive_policy_witness:
  "Wrapped_GetAnalogActionData (Config_default\<lparr>inputMode := Additive\<rparr>) example_bridge
      (g_treadmillState_init\<lparr>TreadmillState.x := 3 / 100\<rparr>) example_movement 7 VRInputError_None
      (Some (example_analog\<lparr>InputAnalogActionData.x := 1 / 2\<rparr>)) 0 =
     (VRInputError_None, Some (example_analog\<lparr>InputAnalogActionData.x := 53 / 100\<rparr>))
   \<and> Wrapped_GetControllerState (Config_default\<lparr>inputMode := Additive\<rparr>) example_bridge
      (g_treadmillState_init\<lparr>TreadmillState.x := 3 / 5\<rparr>) 1 True (Some example_controller) =
     (True, Some (example_controller\<lparr>rAxis := [(1, 0), (0, 0), (0, 0), (0, 0), (0, 0)]\<rparr>))"
proof -
  have h1: "example_movement 7 = Some True \<and> IsConnected example_bridge \<and>
      inputMode (Config_default\<lparr>inputMode := Additive\<rparr>) = Additive"
    by (simp add: example_movement_def example_bridge_def IsConnected_def)
  have h2: "IsConnected example_bridge \<and>
      inputMode (Config_default\<lparr>inputMode := Additive\<rparr>) = Additive \<and>
      (targetControllerIndex (Config_default\<lparr>inputMode := Additive\<rparr>) < 0 \<or>
       sint (1 :: 32 word) = targetControllerIndex (Config_default\<lparr>inputMode := Additive\<rparr>))"
    by (simp add: example_bridge_def IsConnected_def Config_default_def)
  have a: "Wrapped_GetAnalogActionData (Config_default\<lparr>inputMode := Additive\<rparr>) example_bridge
      (g_treadmillState_init\<lparr>TreadmillState.x := 3 / 100\<rparr>) example_movement 7 VRInputError_None
      (Some (example_analog\<lparr>InputAnalogActionData.x := 1 / 2\<rparr>)) 0 =
     (VRInputError_None, Some (example_analog\<lparr>InputAnalogActionData.x := 53 / 100\<rparr>))"
    using additive_policy [where m = example_movement and a = 7 and br = example_bridge
        and cfg = "Config_default\<lparr>inputMode := Additive\<rparr>"
        and tst = "g_treadmillState_init\<lparr>TreadmillState.x := 3 / 100\<rparr>"
        and d = "example_analog\<lparr>InputAnalogActionData.x := 1 / 2\<rparr>" and dev = 0,
        THEN conjunct1, THEN mp, OF h1]
    by (simp add: g_treadmillState_init_def example_analog_def clamp_def)
  have b: "Wrapped_GetControllerState (Config_default\<lparr>inputMode := Additive\<rparr>) example_bridge
      (g_treadmillState_init\<lparr>TreadmillState.x := 3 / 5\<rparr>) 1 True (Some example_controller) =
     (True, Some (example_controller\<lparr>rAxis := [(1, 0), (0, 0), (0, 0), (0, 0), (0, 0)]\<rparr>))"
    using additive_policy [where br = example_bridge
        and cfg = "Config_default\<lparr>inputMode := Additive\<rparr>"
        and tst = "g_treadmillState_init\<lparr>TreadmillState.x := 3 / 5\<rparr>" and idx = 1
        and cs = example_controller, THEN conjunct2, THEN mp, OF h2]
    by (simp add: g_treadmillState_init_def example_controller_def clamp_def)
  from a b show ?thesis by simp
qed

text \<open>
  Claim C6, amended. With a target controller configured (\<open>targetControllerIndex \<ge> 0\<close>)
  the two controller state reads return what the real function returned, unchanged, for
  every device index other than the configured one, whatever the input mode and the
  treadmill state. The analog action read has no such filter: its result depends neither
  on \<open>targetControllerIndex\<close> nor on the device handle of the request.
\<close>

theorem target_filter:
  "(targetControllerIndex cfg \<ge> 0 \<and> uint idx \<noteq> targetControllerIndex cfg \<longrightarrow>
      Wrapped_GetControllerState cfg br tst idx rb pc = (rb, pc)
    \<and> Wrapped_GetControllerStateWithPose cfg br tst idx rb pc = (rb, pc))
   \<and> Wrapped_GetAnalogActionData (cfg\<lparr>targetControllerIndex := t\<rparr>) br tst m a r p dev =
     Wrapped_GetAnalogActionData cfg br tst m a r p dev'"
  by (intro conjI impI controller_filter controller_pose_filter analog_no_filter) simp_all

text \<open>
  The claim as stated fails on the analog action read: with target controller 1
  configured, a read restricted to device handle 2 still has the treadmill value
  injected.
\<close>

theorem target_filter_counterexample:
  "targetControllerIndex (Config_default\<lparr>targetControllerIndex := 1\<rparr>) \<ge> 0
   \<and> Wrapped_GetAnalogActionData (Config_default\<lparr>targetControllerIndex := 1\<rparr>) example_bridge
      (g_treadmillState_init\<lparr>TreadmillState.x := 1 / 2\<rparr>) example_movement 7 VRInputError_None
      (Some example_analog) 2 =
     (VRInputError_None,
      Some (example_analog\<lparr>InputAnalogActionData.x := 1 / 2, bActive := True\<rparr>))
   \<and> example_analog\<lparr>InputAnalogActionData.x := 1 / 2, bActive := True\<rparr> \<noteq> example_analog"
  by (simp add: Wrapped_GetAnalogActionData_def Config_default_def example_bridge_def
      g_treadmillState_init_def example_analog_def example_movement_def IsConnected_def
      VRInputError_None_def Let_def)

theorem target_filter_witness:
  "Wrapped_GetControllerState (Config_default\<lparr>targetControllerIndex := 1\<rparr>) example_bridge
      (g_treadmillState_init\<lparr>TreadmillState.x := 1 / 2\<rparr>) 2 True (Some example_controller) =
     (True, Some example_controller)
   \<and> Wrapped_GetControllerStateWithPose (Config_default\<lparr>targetControllerIndex := 1\<rparr>)
      example_bridge (g_treadmillState_init\<lparr>TreadmillState.x := 1 / 2\<rparr>) 2 True
      (Some example_controller) =
     (True, Some example_controller)"
proof -
  have h: "targetControllerIndex (Config_default\<lparr>targetControllerIndex := 1\<rparr>) \<ge> 0 \<and>
      uint (2 :: 32 word) \<noteq> targetControllerIndex (Config_default\<lparr>targetControllerIndex := 1\<rparr>)"
    by simp
  show ?thesis
    using target_filter [where cfg = "Config_default\<lparr>targetControllerIndex := 1\<rparr>"
        and idx = 2 and br = example_bridge
        and tst = "g_treadmillState_init\<lparr>TreadmillState.x := 1 / 2\<rparr>" and rb = True
        and pc = "Some example_controller", THEN conjunct1, THEN mp, OF h]
    by simp
qed

subsection \<open>Pattern matching\<close>

lemma take_length_eq_iff_prefix: "take (length s) t = s \<longleftrightarrow> prefix s t"
proof
  assume "take (length s) t = s"
  then show "prefix s t"
    by (metis take_is_prefix)
next
  assume "prefix s t"
  then obtain r where "t = s @ r"
    by (auto simp: prefix_def)
  then show "take (length s) t = s"
    by simp
qed

lemma drop_length_eq_iff_suffix:
  "length s \<le> length t \<and> drop (length t - length s) t = s \<longleftrightarrow> suffix s t"
proof
  assume "length s \<le> length t \<and> drop (length t - length s) t = s"
  then show "suffix s t"
    by (metis suffix_drop)
next
  assume "suffix s t"
  then obtain r where "t = r @ s"
    by (auto simp: suffix_def)
  then show "length s \<le> length t \<and> drop (length t - length s) t = s"
    by simp
qed

lemma str_find_iff_sublist: "str_find t s \<noteq> None \<longleftrightarrow> sublist s t"
proof (induction t)
  case Nil
  show ?case by simp
next
  case (Cons c cs)
  have "str_find (c # cs) s \<noteq> None \<longleftrightarrow> take (length s) (c # cs) = s \<or> str_find cs s \<noteq> None"
    by simp
  also have "\<dots> \<longleftrightarrow> prefix s (c # cs) \<or> sublist s cs"
    by (simp only: take_length_eq_iff_prefix Cons.IH)
  also have "\<dots> \<longleftrightarrow> sublist s (c # cs)"
    by (simp only: sublist_Cons_right)
  finally show ?case .
qed

lemma MatchesPattern_glob:
  assumes "pattern \<noteq> []"
  shows "MatchesPattern name pattern = glob_matches name pattern"
proof -
  define p where "p = map tolower pattern"
  define n where "n = map tolower name"
  have p: "p \<noteq> []"
    using assms by (simp add: p_def)
  have core: "(if drop 1 p \<noteq> [] then take (length (drop 1 p) - 1) (drop 1 p) else drop 1 p) =
      butlast (tl p)"
    by (simp add: butlast_conv_take drop_Suc)
  have code: "MatchesPattern name pattern =
     (if hd p = CHR ''*'' \<and> last p = CHR ''*'' then str_find n (butlast (tl p)) \<noteq> None
      else if hd p = CHR ''*'' then
        length (tl p) \<le> length n \<and> drop (length n - length (tl p)) n = tl p
      else if last p = CHR ''*'' then take (length (butlast p)) n = butlast p
      else n = p)"
    using p core
    by (simp add: MatchesPattern_def Let_def p_def [symmetric] n_def [symmetric]
        butlast_conv_take drop_Suc del: not_None_eq)
  have spec: "glob_matches name pattern =
     (if hd p = CHR ''*'' \<and> last p = CHR ''*'' then sublist (butlast (tl p)) n
      else if hd p = CHR ''*'' then suffix (tl p) n
      else if last p = CHR ''*'' then prefix (butlast p) n
      else n = p)"
    using p by (simp add: glob_matches_def Let_def p_def [symmetric] n_def [symmetric])
  show ?thesis
    by (simp only: code spec str_find_iff_sublist drop_length_eq_iff_suffix
        take_length_eq_iff_prefix)
qed

lemma isMovement_iff: "isMovement patterns name \<longleftrightarrow> (\<exists>p \<in> set patterns. MatchesPattern name p)"
  by (induction patterns) auto

text \<open>
  Claim C5, amended. For every name and every non-empty pattern \<open>MatchesPattern\<close>
  decides the specification's grammar on the case-folded strings: substring of the core
  for a leading and a trailing star, suffix for a leading star, prefix for a trailing
  star, equality otherwise. The empty pattern matches no name. The classification loop
  answers true exactly when some pattern of the list matches;
  \<open>LeftHand/Locomotion/Move\<close> matches \<open>*move*\<close>, and \<open>Jump\<close> matches no default pattern.
\<close>

theorem MatchesPattern_grammar:
  "(pattern \<noteq> [] \<longrightarrow> MatchesPattern name pattern = glob_matches name pattern)
   \<and> \<not> MatchesPattern name []
   \<and> (isMovement patterns name \<longleftrightarrow> (\<exists>p \<in> set patterns. MatchesPattern name p))
   \<and> MatchesPattern ''LeftHand/Locomotion/Move'' ''*move*''
   \<and> \<not> isMovement (actionPatterns Config_default) ''Jump''"
proof (intro conjI impI)
  show "MatchesPattern name pattern = glob_matches name pattern" if "pattern \<noteq> []"
    using that by (rule MatchesPattern_glob)
  show "\<not> MatchesPattern name []"
    by (simp add: MatchesPattern_def)
  show "isMovement patterns name \<longleftrightarrow> (\<exists>p \<in> set patterns. MatchesPattern name p)"
    by (rule isMovement_iff)
  show "MatchesPattern ''LeftHand/Locomotion/Move'' ''*move*''"
    by code_simp
  show "\<not> isMovement (actionPatterns Config_default) ''Jump''"
    by code_simp
qed

text \<open>
  The claim as stated fails at one point: the empty pattern has no star and equals the
  empty name, so the grammar accepts, and \<open>MatchesPattern\<close> returns false (its first
  test is \<^verbatim>\<open>if (lowerPattern.empty()) return false\<close>).
\<close>

theorem MatchesPattern_empty_counterexample:
  "map tolower ([] :: string) = map tolower ([] :: string)
   \<and> glob_matches [] [] \<and> \<not> MatchesPattern [] []"
  by (simp add: MatchesPattern_def glob_matches_def)

theorem MatchesPattern_grammar_witness:
  "''walk*'' \<noteq> [] \<and> MatchesPattern ''WalkFast'' ''walk*'' \<and> glob_matches ''WalkFast'' ''walk*''
   \<and> isMovement [''*move*'', ''walk*''] ''WalkFast''"
proof -
  have m: "MatchesPattern ''WalkFast'' ''walk*''"
    by code_simp
  have g: "glob_matches ''WalkFast'' ''walk*''"
    using MatchesPattern_grammar [where pattern = "''walk*''" and name = "''WalkFast''",
        THEN conjunct1] m
    by simp
  have i: "isMovement [''*move*'', ''walk*''] ''WalkFast''"
    using MatchesPattern_grammar [where patterns = "[''*move*'', ''walk*'']"
        and name = "''WalkFast''", THEN conjunct2, THEN conjunct2, THEN conjunct1] m
    by simp
  from m g i show ?thesis by simp
qed

subsection \<open>Circular smoothing of the yaw\<close>











subsection \<open>Direction validator\<close>

lemma GetPose_report:
  "validator_report hp g mp =
     direction_analysis cos sin g (bPoseIsValid hp)
       (if bPoseIsValid hp then mDeviceToAbsoluteTracking hp 0 3 else 0)
       (if bPoseIsValid hp then mDeviceToAbsoluteTracking hp 2 3 else 0)"
  by (simp add: validator_report_def TreadmillVisualTracker_GetPose_def Let_def)

lemma validator_report_eq:
  "validator_report hp g mp =
     (if analysed hp g \<and> vlen (actual_delta hp g) > 5 / 100 \<and> vlen (expected_dir g) > 1 / 100
      then Some (classify_direction (actual_delta hp g) (expected_dir g))
      else None)"
  by (simp add: GetPose_report direction_analysis_def analysed_def vlen_def actual_delta_def
      expected_dir_def classify_direction_def angle_deviation_def normalize2_def Let_def)


text \<open>
  Claim C8, amended. A tick of the tracker's \<^verbatim>\<open>GetPose\<close> classifies exactly when the
  headset pose is valid, a previous sample exists, the sample counter is a multiple of
  50, the horizontal displacement is longer than 0.05 m and the joystick vector rotated
  by the smoothed yaw is longer than 0.01. Then the deviation is
  \<open>arccos (clamp (dot (normalize actualDelta) (normalize expectedDir)) (-1) 1)\<close> in
  degrees (with the source's constant for \<open>\<pi>\<close>), the rotation being
  \<open>(x cos \<theta> - y sin \<theta>, x sin \<theta> + y cos \<theta>)\<close>, and the tick reports a mismatch if
  the deviation is above 5 and OK otherwise. On every other tick, in particular when
  the displacement is at most 0.05 m, nothing is classified.
\<close>

theorem direction_validator:
  "validator_report hp g mp =
     (if analysed hp g \<and> vlen (actual_delta hp g) > 5 / 100 \<and> vlen (expected_dir g) > 1 / 100
      then Some (classify_direction (actual_delta hp g) (expected_dir g))
      else None)
   \<and> (analysed hp g \<and> vlen (actual_delta hp g) > 5 / 100 \<and> vlen (expected_dir g) > 1 / 100 \<longrightarrow>
        (is_mismatch (validator_report hp g mp) \<longleftrightarrow>
           angle_deviation (actual_delta hp g) (expected_dir g) > 5)
      \<and> (is_ok (validator_report hp g mp) \<longleftrightarrow>
           \<not> angle_deviation (actual_delta hp g) (expected_dir g) > 5))
   \<and> (vlen (actual_delta hp g) \<le> 5 / 100 \<longrightarrow> validator_report hp g mp = None)"
proof (intro conjI impI)
  show "validator_report hp g mp =
     (if analysed hp g \<and> vlen (actual_delta hp g) > 5 / 100 \<and> vlen (expected_dir g) > 1 / 100
      then Some (classify_direction (actual_delta hp g) (expected_dir g))
      else None)"
    by (rule validator_report_eq)
  show "is_mismatch (validator_report hp g mp) \<longleftrightarrow>
           angle_deviation (actual_delta hp g) (expected_dir g) > 5"
    if "analysed hp g \<and> vlen (actual_delta hp g) > 5 / 100 \<and> vlen (expected_dir g) > 1 / 100"
    using that by (simp add: validator_report_eq classify_direction_def)
  show "is_ok (validator_report hp g mp) \<longleftrightarrow>
           \<not> angle_deviation (actual_delta hp g) (expected_dir g) > 5"
    if "analysed hp g \<and> vlen (actual_delta hp g) > 5 / 100 \<and> vlen (expected_dir g) > 1 / 100"
    using that by (simp add: validator_report_eq classify_direction_def)
  show "validator_report hp g mp = None" if "vlen (actual_delta hp g) \<le> 5 / 100"
    using that by (simp add: validator_report_eq)
qed

lemma vlen_axis: "vlen (a, 0) = \<bar>a\<bar>"
  by (simp add: vlen_def)

lemma east_delta:
  "lastHmdX g = 0 \<Longrightarrow> lastHmdZ g = 0 \<Longrightarrow> actual_delta (example_hmd True 1 0) g = (1, 0)"
  by (simp add: actual_delta_def example_hmd_def)

lemma north_delta:
  "lastHmdX g = 0 \<Longrightarrow> lastHmdZ g = 0 \<Longrightarrow> actual_delta (example_hmd True 0 1) g = (0, 1)"
  by (simp add: actual_delta_def example_hmd_def)

lemma forward_dir:
  "x_smoothed g = 0 \<Longrightarrow> y_smoothed g = 1 \<Longrightarrow> yaw_smoothed g = 0 \<Longrightarrow> expected_dir g = (0, 1)"
  by (simp add: expected_dir_def Let_def)

lemma deviation_east_forward: "angle_deviation (1, 0) (0, 1) > 5"
proof -
  have "angle_deviation (1, 0) (0, 1) = pi / 2 * 180 / 3.14159265358979323846"
    by (simp add: angle_deviation_def normalize2_def vlen_def clamp_def)
  moreover have "5 < pi / 2 * 180 / 3.14159265358979323846"
    using pi_ge_two by simp
  ultimately show ?thesis by simp
qed

lemma deviation_north_forward: "angle_deviation (0, 1) (0, 1) = 0"
  by (simp add: angle_deviation_def normalize2_def vlen_def clamp_def)

text \<open>
  The claim as stated fails on two guards it does not name. With a previous sample and
  a displacement of 1 m, a joystick at rest gives an expected vector of length 0 and no
  classification at all; and with the joystick forward, where the deviation is 90
  degrees, a tick whose sample counter is 1 classifies nothing either.
\<close>

theorem direction_validator_counterexample:
  "hmdInitialized (g_state_init\<lparr>hmdInitialized := True\<rparr>)
   \<and> vlen (actual_delta (example_hmd True 1 0) (g_state_init\<lparr>hmdInitialized := True\<rparr>)) = 1
   \<and> validator_report (example_hmd True 1 0) (g_state_init\<lparr>hmdInitialized := True\<rparr>)
        example_pose = None
   \<and> hmdInitialized (g_state_init\<lparr>hmdInitialized := True, y_smoothed := 1, logCounter := 1\<rparr>)
   \<and> vlen (actual_delta (example_hmd True 1 0)
        (g_state_init\<lparr>hmdInitialized := True, y_smoothed := 1, logCounter := 1\<rparr>)) = 1
   \<and> angle_deviation
        (actual_delta (example_hmd True 1 0)
          (g_state_init\<lparr>hmdInitialized := True, y_smoothed := 1, logCounter := 1\<rparr>))
        (expected_dir (g_state_init\<lparr>hmdInitialized := True, y_smoothed := 1, logCounter := 1\<rparr>))
        > 5
   \<and> validator_report (example_hmd True 1 0)
        (g_state_init\<lparr>hmdInitialized := True, y_smoothed := 1, logCounter := 1\<rparr>)
        example_pose = None"
proof -
  define g1 where "g1 = g_state_init\<lparr>hmdInitialized := True\<rparr>"
  define g2 where "g2 = g_state_init\<lparr>hmdInitialized := True, y_smoothed := 1, logCounter := 1\<rparr>"
  have d1: "actual_delta (example_hmd True 1 0) g1 = (1, 0)"
    by (rule east_delta) (simp_all add: g1_def g_state_init_def)
  have d2: "actual_delta (example_hmd True 1 0) g2 = (1, 0)"
    by (rule east_delta) (simp_all add: g2_def g_state_init_def)
  have e1: "expected_dir g1 = (0, 0)"
    by (simp add: expected_dir_def g1_def g_state_init_def Let_def)
  have e2: "expected_dir g2 = (0, 1)"
    by (rule forward_dir) (simp_all add: g2_def g_state_init_def)
  have n2: "\<not> analysed (example_hmd True 1 0) g2"
    by (simp add: analysed_def g2_def g_state_init_def)
  have "hmdInitialized g1" "hmdInitialized g2"
    by (simp_all add: g1_def g2_def)
  moreover have "vlen (actual_delta (example_hmd True 1 0) g1) = 1"
    "vlen (actual_delta (example_hmd True 1 0) g2) = 1"
    by (simp_all add: d1 d2 vlen_def)
  moreover have "validator_report (example_hmd True 1 0) g1 example_pose = None"
    by (simp add: validator_report_eq e1 vlen_def)
  moreover have "angle_deviation (actual_delta (example_hmd True 1 0) g2) (expected_dir g2) > 5"
    by (simp only: d2 e2 deviation_east_forward)
  moreover have "validator_report (example_hmd True 1 0) g2 example_pose = None"
    using n2 by (simp add: validator_report_eq)
  ultimately show ?thesis
    by (simp only: g1_def g2_def simp_thms)
qed

theorem direction_validator_witness:
  "is_mismatch (validator_report (example_hmd True 1 0)
      (g_state_init\<lparr>hmdInitialized := True, y_smoothed := 1\<rparr>) example_pose)
   \<and> is_ok (validator_report (example_hmd True 0 1)
      (g_state_init\<lparr>hmdInitialized := True, y_smoothed := 1\<rparr>) example_pose)
   \<and> validator_report (example_hmd True (1 / 100) 0)
      (g_state_init\<lparr>hmdInitialized := True, y_smoothed := 1\<rparr>) example_pose = None"
proof -
  define g where "g = g_state_init\<lparr>hmdInitialized := True, y_smoothed := 1\<rparr>"
  have de: "actual_delta (example_hmd True 1 0) g = (1, 0)"
    by (rule east_delta) (simp_all add: g_def g_state_init_def)
  have dn: "actual_delta (example_hmd True 0 1) g = (0, 1)"
    by (rule north_delta) (simp_all add: g_def g_state_init_def)
  have "actual_delta (example_hmd True (1 / 100) 0) g = (1 / 100, 0)"
    by (simp add: actual_delta_def example_hmd_def g_def g_state_init_def)
  then have ds: "vlen (actual_delta (example_hmd True (1 / 100) 0) g) \<le> 5 / 100"
    by (simp add: vlen_axis)
  have e: "expected_dir g = (0, 1)"
    by (rule forward_dir) (simp_all add: g_def g_state_init_def)
  have an: "analysed (example_hmd True 1 0) g" "analysed (example_hmd True 0 1) g"
    by (simp_all add: analysed_def example_hmd_def g_def g_state_init_def)
  have he: "analysed (example_hmd True 1 0) g \<and>
      vlen (actual_delta (example_hmd True 1 0) g) > 5 / 100 \<and> vlen (expected_dir g) > 1 / 100"
    using an by (simp add: de e vlen_def)
  have hn: "analysed (example_hmd True 0 1) g \<and>
      vlen (actual_delta (example_hmd True 0 1) g) > 5 / 100 \<and> vlen (expected_dir g) > 1 / 100"
    using an by (simp add: dn e vlen_def)
  have a: "is_mismatch (validator_report (example_hmd True 1 0) g example_pose)"
    using direction_validator [where hp = "example_hmd True 1 0" and g = g and mp = example_pose,
        THEN conjunct2, THEN conjunct1, THEN mp, OF he, THEN conjunct1]
    by (simp add: de e deviation_east_forward)
  have b: "is_ok (validator_report (example_hmd True 0 1) g example_pose)"
    using direction_validator [where hp = "example_hmd True 0 1" and g = g and mp = example_pose,
        THEN conjunct2, THEN conjunct1, THEN mp, OF hn, THEN conjunct2]
    by (simp add: dn e deviation_north_forward)
  have c: "validator_report (example_hmd True (1 / 100) 0) g example_pose = None"
    using direction_validator [where hp = "example_hmd True (1 / 100) 0" and g = g
        and mp = example_pose, THEN conjunct2, THEN conjunct2, THEN mp, OF ds] .
  from a b c show ?thesis
    by (simp only: g_def simp_thms)
qed

subsection \<open>Pose quaternion\<close>




lemma tracker_rotation_exact:
  "tracker_rotation cos sin ya =
     \<lparr>w = cos (ya * DEG2RAD / 2), x = 0, y = - sin (ya * DEG2RAD / 2), z = 0\<rparr>"
  by (simp add: tracker_rotation_def Let_def power2_eq_square [symmetric])

lemma qnorm_exact: "qnorm \<lparr>w = cos h, x = 0, y = - sin h, z = 0\<rparr> = 1"
  by (simp add: qnorm_def)



end
